theory Spec2Isabelle
  imports Complex_Main "HOL-Library.Sublist"
begin

section \<open>Data model\<close>

subsection \<open>JSON values and JavaScript errors\<close>

text \<open>
  The values \<^verbatim>\<open>JSON.parse\<close> produces. An object is an association list in
  JavaScript's property order with distinct keys, as \<^verbatim>\<open>Object.entries\<close> lists it.
\<close>

datatype json =
    JNull
  | JBool bool
  | JNum real
  | JStr string
  | JArr "json list"
  | JObj "(string \<times> json) list"

text \<open>
  The exceptions the program can see. \<open>ErrnoException code message\<close> is a file-system
  error (its \<^verbatim>\<open>code\<close> is what \<^verbatim>\<open>getSettings\<close> inspects); the errors of the chat API
  and of the tool provider are plain \<open>Error\<close>s. The text of a \<open>TypeError\<close> or
  \<open>SyntaxError\<close> is the engine's and is not fixed here.
\<close>

datatype error =
    Error string
  | TypeError string
  | SyntaxError string
  | ErrnoException string string

fun message_of :: "error \<Rightarrow> string" where
  "message_of (Error m) = m"
| "message_of (TypeError m) = m"
| "message_of (SyntaxError m) = m"
| "message_of (ErrnoException c m) = m"

subsection \<open>Chat messages, requests and responses\<close>

record ToolCall =
  tc_id :: string
  tc_function_name :: string
  tc_function_arguments :: string

text \<open>\<^verbatim>\<open>ChatCompletionMessage\<close>: the assistant message of a response (its role is fixed).\<close>

record ChatCompletionMessage =
  cm_content :: "string option"
  cm_tool_calls :: "ToolCall list option"

text \<open>
  \<^verbatim>\<open>ChatCompletionMessageParam\<close>, the element type of \<^verbatim>\<open>this.messages\<close>: the three
  shapes the client pushes. The content of a tool message is \<^verbatim>\<open>result.content[0].text!\<close>,
  which is \<^verbatim>\<open>undefined\<close> (\<open>None\<close>) when the first item carries no text.
\<close>

datatype ChatCompletionMessageParam =
    UserMessage string
  | AssistantMessage ChatCompletionMessage
  | ToolMessage "string option" string

record McpTool =
  tool_name :: string
  tool_description :: string
  tool_inputSchema :: json

text \<open>An element of \<^verbatim>\<open>available_tools\<close>: \<^verbatim>\<open>{type: "function", function: {...}}\<close>.\<close>

record ChatCompletionTool =
  ct_type :: string
  ct_name :: string
  ct_description :: string
  ct_parameters :: json

text \<open>The argument of \<^verbatim>\<open>chat.completions.create\<close>; an absent field is \<open>None\<close>.\<close>

record CreateParams =
  req_model :: string
  req_messages :: "ChatCompletionMessageParam list"
  req_tools :: "ChatCompletionTool list option"
  req_tool_choice :: "string option"

record Choice =
  finish_reason :: string
  message :: ChatCompletionMessage

record ChatCompletion =
  choices :: "Choice list"

record ContentItem =
  item_text :: "string option"

record CallToolResult =
  content :: "ContentItem list"

subsection \<open>The outside world\<close>

text \<open>
  Every call that leaves the process is recorded, in order, as an event. Console
  rendering (\<^verbatim>\<open>console.log\<close>, \<^verbatim>\<open>process.stdout\<close>) is not part of the model.
\<close>

datatype event =
    StdioClient json "json list"
  | Initialize
  | ListTools
  | Create CreateParams
  | CallTool string json
  | MkdirSync string
  | WriteFileSync "ChatCompletionMessageParam list"
  | Close
  | LoggerError string

text \<open>
  The collaborators, as oracles: each answers from the events so far, so that an answer
  may depend on everything that happened before it (a run never asks twice at the same
  history). \<open>None\<close> from an oracle of a \<^verbatim>\<open>void\<close> call is a normal return, \<open>Some e\<close>
  the exception \<open>e\<close>. \<open>JSON_parse\<close> gives \<open>None\<close> where \<^verbatim>\<open>JSON.parse\<close> throws its
  \<^verbatim>\<open>SyntaxError\<close>.
\<close>

record world =
  env_DEEPSEEK_API_KEY :: "string option"
  module_projectDir :: string
  readFileSync :: "string \<Rightarrow> error + string"
  JSON_parse :: "string \<Rightarrow> json option"
  stdio_client :: "event list \<Rightarrow> error option"
  initialize :: "event list \<Rightarrow> error option"
  list_tools :: "event list \<Rightarrow> error + McpTool list"
  completions_create :: "event list \<Rightarrow> CreateParams \<Rightarrow> error + ChatCompletion"
  call_tool :: "event list \<Rightarrow> string \<Rightarrow> json \<Rightarrow> error + CallToolResult"
  existsSync :: "event list \<Rightarrow> bool"
  mkdirSync :: "event list \<Rightarrow> error option"
  writeFileSync :: "event list \<Rightarrow> error option"
  session_close :: "event list \<Rightarrow> error option"

subsection \<open>The client\<close>

record ServerConfig =
  sc_name :: string
  sc_command :: json
  sc_args :: "json list"

datatype ClientSession = ClientSession json "json list"

text \<open>
  The fields of \<^verbatim>\<open>MCPClient\<close> that the methods read or write, and the trace of the
  events so far.
\<close>

record MCPClient =
  session :: "ClientSession option"
  model :: string
  serverConfig :: "ServerConfig option"
  messages :: "ChatCompletionMessageParam list"
  trace :: "event list"

text \<open>The value \<^verbatim>\<open>getSettings\<close> builds (settings.ts, lines 14 to 21).\<close>

record Settings =
  st_model :: string
  st_apiKey :: string
  st_baseUrl :: string
  st_projectDir :: string
  st_serverConfigPath :: string
  st_serverConfig :: "ServerConfig option"

section \<open>processQuery\<close>

definition available_tools_of :: "McpTool list \<Rightarrow> ChatCompletionTool list" where
  "available_tools_of tools =
     map (\<lambda>tool. \<lparr>ct_type = ''function'', ct_name = tool_name tool,
                   ct_description = tool_description tool,
                   ct_parameters = tool_inputSchema tool\<rparr>) tools"

text \<open>The first request of a turn (client.ts, lines 70 to 75).\<close>

definition first_request :: "MCPClient \<Rightarrow> ChatCompletionTool list \<Rightarrow> CreateParams" where
  "first_request c available_tools =
     \<lparr>req_model = model c, req_messages = messages c,
      req_tools = (if length available_tools > 0 then Some available_tools else None),
      req_tool_choice = (if length available_tools > 0 then Some ''auto'' else None)\<rparr>"

text \<open>The request after a tool round (client.ts, lines 101 to 104).\<close>

definition second_request :: "MCPClient \<Rightarrow> CreateParams" where
  "second_request c =
     \<lparr>req_model = model c, req_messages = messages c,
      req_tools = None, req_tool_choice = None\<rparr>"

definition log_event :: "event \<Rightarrow> MCPClient \<Rightarrow> MCPClient" where
  "log_event e c = c\<lparr>trace := trace c @ [e]\<rparr>"

definition push :: "ChatCompletionMessageParam list \<Rightarrow> MCPClient \<Rightarrow> MCPClient" where
  "push ms c = c\<lparr>messages := messages c @ ms\<rparr>"

text \<open>
  The \<^verbatim>\<open>for\<close> loop over \<^verbatim>\<open>tool_calls\<close> (client.ts, lines 83 to 96). The last argument is
  the local array \<^verbatim>\<open>tool_messages\<close>. A throw leaves the loop with the client as it is
  then.
\<close>

fun tool_loop ::
  "world \<Rightarrow> MCPClient \<Rightarrow> ToolCall list \<Rightarrow> ChatCompletionMessageParam list
     \<Rightarrow> (error + ChatCompletionMessageParam list) \<times> MCPClient" where
  "tool_loop w c [] tool_messages = (Inr tool_messages, c)"
| "tool_loop w c (tool_call # rest) tool_messages =
     (let tname = tc_function_name tool_call in
      case JSON_parse w (tc_function_arguments tool_call) of
        None \<Rightarrow> (Inl (SyntaxError ''Unexpected token in JSON''), c)
      | Some tool_args \<Rightarrow>
          (let c' = log_event (CallTool tname tool_args) c in
           case call_tool w (trace c) tname tool_args of
             Inl e \<Rightarrow> (Inl e, c')
           | Inr result \<Rightarrow>
               (case content result of
                  [] \<Rightarrow> (Inl (TypeError ''Cannot read properties of undefined (reading text)''), c')
                | item # others \<Rightarrow>
                    tool_loop w c' rest
                      (tool_messages @ [ToolMessage (item_text item) (tc_id tool_call)]))))"

text \<open>
  The part of \<^verbatim>\<open>processQuery\<close> after the tool loop (lines 98 to 105): both pushes, the
  second request, and the answer.
\<close>

definition finalize ::
  "world \<Rightarrow> MCPClient \<Rightarrow> ChatCompletionMessage \<Rightarrow> ChatCompletionMessageParam list
     \<Rightarrow> (error + string option) \<times> MCPClient" where
  "finalize w c msg tool_messages =
     (let c1 = push tool_messages (push [AssistantMessage msg] c);
          c2 = log_event (Create (second_request c1)) c1 in
      case completions_create w (trace c1) (second_request c1) of
        Inl e \<Rightarrow> (Inl e, c2)
      | Inr second_response \<Rightarrow>
          (case choices second_response of
             [] \<Rightarrow> (Inl (TypeError ''Cannot read properties of undefined (reading message)''), c2)
           | ch # others \<Rightarrow> (Inr (cm_content (message ch)), c2)))"

text \<open>What follows the first response (lines 77 to 109).\<close>

definition handle_response ::
  "world \<Rightarrow> MCPClient \<Rightarrow> ChatCompletion \<Rightarrow> (error + string option) \<times> MCPClient" where
  "handle_response w c chatResponse =
     (case choices chatResponse of
        [] \<Rightarrow> (Inl (TypeError ''Cannot read properties of undefined (reading finish_reason)''), c)
      | choice0 # others \<Rightarrow>
          if finish_reason choice0 = ''tool_calls'' then
            (case cm_tool_calls (message choice0) of
               None \<Rightarrow> (Inl (TypeError ''undefined is not iterable''), c)
             | Some tool_calls \<Rightarrow>
                 (case tool_loop w c tool_calls [] of
                    (Inl e, c') \<Rightarrow> (Inl e, c')
                  | (Inr tool_messages, c') \<Rightarrow> finalize w c' (message choice0) tool_messages))
          else (Inr (cm_content (message choice0)),
                push [AssistantMessage (message choice0)] c))"

text \<open>
  \<^verbatim>\<open>processQuery\<close> returns the answer (\<open>None\<close> is JavaScript's \<^verbatim>\<open>null\<close>, which the
  non-null assertion lets through) or the exception thrown, and the client afterwards.
\<close>

definition processQuery ::
  "world \<Rightarrow> MCPClient \<Rightarrow> string \<Rightarrow> (error + string option) \<times> MCPClient" where
  "processQuery w c query =
     (let c1 = push [UserMessage query] c in
      case session c1 of
        None \<Rightarrow> (Inl (TypeError ''Cannot read properties of null (reading list_tools)''), c1)
      | Some s \<Rightarrow>
          (let c2 = log_event ListTools c1 in
           case list_tools w (trace c1) of
             Inl e \<Rightarrow> (Inl e, c2)
           | Inr tools \<Rightarrow>
               (let req = first_request c2 (available_tools_of tools);
                    c3 = log_event (Create req) c2 in
                case completions_create w (trace c2) req of
                  Inl e \<Rightarrow> (Inl e, c3)
                | Inr chatResponse \<Rightarrow> handle_response w c3 chatResponse)))"

section \<open>The interactive loop, cleanup and main\<close>

text \<open>
  Strings are lists of 8-bit code units (the Latin-1 range of JavaScript's code units).
  \<open>is_space\<close> holds of the white space and line terminators of that range, which is
  what \<^verbatim>\<open>String.prototype.trim\<close> strips.
\<close>

definition is_space :: "char \<Rightarrow> bool" where
  "is_space ch = (of_char ch \<in> set [9, 10, 11, 12, 13, 32, 160 :: nat])"

definition trim :: "string \<Rightarrow> string" where
  "trim s = rev (dropWhile is_space (rev (dropWhile is_space s)))"

definition lower_char :: "char \<Rightarrow> char" where
  "lower_char ch =
     (let n = (of_char ch :: nat) in
      if (65 \<le> n \<and> n \<le> 90) \<or> (192 \<le> n \<and> n \<le> 222 \<and> n \<noteq> 215)
      then char_of (n + 32) else ch)"

definition toLowerCase :: "string \<Rightarrow> string" where
  "toLowerCase s = map lower_char s"

text \<open>
  \<^verbatim>\<open>chatLoop\<close> (client.ts, lines 119 to 135) over the lines the user will type. The loop
  only ends at a \<^verbatim>\<open>quit\<close> line: when the lines run out before one, it never returns
  (\<open>None\<close>). An exception of a turn is logged and the loop goes on. The console calls
  around the turn are left out, and with them the log of an exception of theirs.
\<close>

fun chatLoop :: "world \<Rightarrow> MCPClient \<Rightarrow> string list \<Rightarrow> MCPClient option" where
  "chatLoop w c [] = None"
| "chatLoop w c (line # lines) =
     (let query = trim line in
      if toLowerCase query = ''quit'' then Some c
      else
        (case processQuery w c query of
           (Inl e, c') \<Rightarrow>
             chatLoop w (log_event (LoggerError (''Error: '' @ message_of e)) c') lines
         | (Inr response, c') \<Rightarrow> chatLoop w c' lines))"

text \<open>\<^verbatim>\<open>path.join\<close> of a normalised directory and a plain file name.\<close>

definition path_join :: "string \<Rightarrow> string \<Rightarrow> string" where
  "path_join dir file =
     (if dir \<noteq> [] \<and> last dir = CHR ''/'' then dir @ file else dir @ ''/'' @ file)"

definition new_MCPClient :: "Settings \<Rightarrow> MCPClient" where
  "new_MCPClient settings =
     \<lparr>session = None, model = st_model settings,
      serverConfig = st_serverConfig settings, messages = [], trace = []\<rparr>"

definition connectToServer :: "world \<Rightarrow> MCPClient \<Rightarrow> error option \<times> MCPClient" where
  "connectToServer w c =
     (case serverConfig c of
        None \<Rightarrow> (Some (TypeError ''Cannot read properties of null (reading name)''), c)
      | Some cfg \<Rightarrow>
          (let c1 = log_event (StdioClient (sc_command cfg) (sc_args cfg)) c in
           case stdio_client w (trace c) of
             Some e \<Rightarrow> (Some e, c1)
           | None \<Rightarrow>
               (let c2 = c1\<lparr>session := Some (ClientSession (sc_command cfg) (sc_args cfg))\<rparr>;
                    c3 = log_event Initialize c2 in
                case initialize w (trace c2) of
                  Some e \<Rightarrow> (Some e, c3)
                | None \<Rightarrow>
                    (case list_tools w (trace c3) of
                       Inl e \<Rightarrow> (Some e, log_event ListTools c3)
                     | Inr response \<Rightarrow> (None, log_event ListTools c3)))))"

text \<open>
  \<^verbatim>\<open>cleanup\<close> (client.ts, lines 138 to 150). The file name comes from the clock and is
  left out; the event records what is written.
\<close>

definition cleanup :: "Settings \<Rightarrow> world \<Rightarrow> MCPClient \<Rightarrow> error option \<times> MCPClient" where
  "cleanup settings w c =
     (let historyDir = path_join (st_projectDir settings) ''history'';
          made = (if \<not> existsSync w (trace c)
                  then (mkdirSync w (trace c), log_event (MkdirSync historyDir) c)
                  else (None, c))
      in case made of
           (Some e, c1) \<Rightarrow> (Some e, c1)
         | (None, c1) \<Rightarrow>
             (let c2 = log_event (WriteFileSync (messages c1)) c1 in
              case writeFileSync w (trace c1) of
                Some e \<Rightarrow> (Some e, c2)
              | None \<Rightarrow>
                  (case session c2 of
                     None \<Rightarrow> (None, c2)
                   | Some s \<Rightarrow> (session_close w (trace c2), log_event Close c2))))"

text \<open>
  \<^verbatim>\<open>main\<close> (client.ts, lines 153 to 162): the client at the end, or \<open>None\<close> when the loop
  never returns.
\<close>

definition main :: "Settings \<Rightarrow> world \<Rightarrow> string list \<Rightarrow> MCPClient option" where
  "main settings w lines =
     (let client = new_MCPClient settings in
      case connectToServer w client of
        (Some e, c1) \<Rightarrow> Some (log_event (LoggerError (message_of e)) c1)
      | (None, c1) \<Rightarrow>
          (case chatLoop w c1 lines of
             None \<Rightarrow> None
           | Some c2 \<Rightarrow>
               (case cleanup settings w c2 of
                  (Some e, c3) \<Rightarrow> Some (log_event (LoggerError (message_of e)) c3)
                | (None, c3) \<Rightarrow> Some c3)))"

section \<open>Settings\<close>

subsection \<open>The JavaScript operations that getSettings applies to parsed JSON\<close>

text \<open>\<^verbatim>\<open>!v\<close> is \<open>\<not> truthy v\<close>.\<close>

fun truthy :: "json \<Rightarrow> bool" where
  "truthy JNull = False"
| "truthy (JBool b) = b"
| "truthy (JNum x) = (x \<noteq> 0)"
| "truthy (JStr s) = (s \<noteq> [])"
| "truthy (JArr xs) = True"
| "truthy (JObj kvs) = True"

fun string_of_nat :: "nat \<Rightarrow> string" where
  "string_of_nat n =
     (if n < 10 then [char_of (48 + n)]
      else string_of_nat (n div 10) @ [char_of (48 + n mod 10)])"

text \<open>
  \<^verbatim>\<open>Object.entries\<close> of a value that is not \<^verbatim>\<open>null\<close>: the own enumerable properties (an
  array's and a string's are its indices, a number or boolean has none).
  \<^verbatim>\<open>Object.keys(v).length\<close> is the length of this list.
\<close>

fun Object_entries :: "json \<Rightarrow> (string \<times> json) list" where
  "Object_entries (JObj kvs) = kvs"
| "Object_entries (JArr xs) = zip (map string_of_nat [0..<length xs]) xs"
| "Object_entries (JStr s) = zip (map string_of_nat [0..<length s]) (map (\<lambda>ch. JStr [ch]) s)"
| "Object_entries v = []"

text \<open>
  \<^verbatim>\<open>v.key\<close> for a key that no prototype defines (here \<^verbatim>\<open>mcpServers\<close>, \<^verbatim>\<open>command\<close>,
  \<^verbatim>\<open>args\<close>): \<open>Inr None\<close> is \<^verbatim>\<open>undefined\<close>.
\<close>

fun get_property :: "json \<Rightarrow> string \<Rightarrow> error + json option" where
  "get_property JNull key = Inl (TypeError ''Cannot read properties of null'')"
| "get_property (JObj kvs) key = Inr (map_of kvs key)"
| "get_property v key = Inr None"

text \<open>\<^verbatim>\<open>key in v\<close>, for such a key: a \<^verbatim>\<open>TypeError\<close> when \<open>v\<close> is not an object.\<close>

definition in_operator :: "string \<Rightarrow> json \<Rightarrow> error + bool" where
  "in_operator key v =
     (case v of
        JObj kvs \<Rightarrow> Inr (key \<in> set (map fst kvs))
      | JArr xs \<Rightarrow>
          Inr (key \<in> set (map string_of_nat [0..<length xs]) \<or> key = ''length'')
      | other \<Rightarrow> Inl (TypeError ''Cannot use in operator to search for a key''))"

text \<open>\<^verbatim>\<open>requiredFields.filter((field) => !(field in server))\<close>.\<close>

fun filter_missing :: "string list \<Rightarrow> json \<Rightarrow> error + string list" where
  "filter_missing [] server = Inr []"
| "filter_missing (field # rest) server =
     (case in_operator field server of
        Inl e \<Rightarrow> Inl e
      | Inr present \<Rightarrow>
          (case filter_missing rest server of
             Inl e \<Rightarrow> Inl e
           | Inr missing \<Rightarrow> Inr (if present then missing else field # missing)))"

fun join :: "string \<Rightarrow> string list \<Rightarrow> string" where
  "join sep [] = []"
| "join sep [x] = x"
| "join sep (x # y # ys) = x @ sep @ join sep (y # ys)"

definition quoted :: "string \<Rightarrow> string" where
  "quoted s = [CHR 0x27] @ s @ [CHR 0x27]"

subsection \<open>getSettings\<close>

text \<open>
  The checks on the first entry and the \<^verbatim>\<open>serverConfig\<close> built from it (settings.ts,
  lines 62 to 78). After the check of \<^verbatim>\<open>missingFields\<close> both properties exist, so the
  branch for an absent \<^verbatim>\<open>command\<close> is never taken.
\<close>

definition checkServer :: "string \<Rightarrow> json \<Rightarrow> error + ServerConfig" where
  "checkServer name server =
     (case filter_missing [''command'', ''args''] server of
        Inl e \<Rightarrow> Inl e
      | Inr missingFields \<Rightarrow>
          if length missingFields > 0
          then Inl (Error (''Server '' @ quoted name @
                 '' missing required fields: '' @ join '', '' missingFields))
          else
            (case get_property server ''args'' of
               Inl e \<Rightarrow> Inl e
             | Inr (Some (JArr (x # xs))) \<Rightarrow>
                 (case get_property server ''command'' of
                    Inl e \<Rightarrow> Inl e
                  | Inr None \<Rightarrow> Inl (TypeError ''command is undefined'')
                  | Inr (Some cmd) \<Rightarrow>
                      Inr \<lparr>sc_name = name, sc_command = cmd, sc_args = x # xs\<rparr>)
             | Inr other \<Rightarrow>
                 Inl (Error (''Server '' @ quoted name @
                   '' must have a non-empty '' @ quoted ''args'' @ '' list''))))"

definition no_server_error :: error where
  "no_server_error =
     Error (''Config must contain at least one server in '' @ quoted ''mcpServers'')"

text \<open>The body of the \<^verbatim>\<open>try\<close> block (settings.ts, lines 47 to 78).\<close>

definition readServerConfig :: "world \<Rightarrow> string \<Rightarrow> error + ServerConfig" where
  "readServerConfig w serverConfigPath =
     (case readFileSync w serverConfigPath of
        Inl e \<Rightarrow> Inl e
      | Inr serverConfigRaw \<Rightarrow>
          (case JSON_parse w serverConfigRaw of
             None \<Rightarrow> Inl (SyntaxError ''Unexpected token in JSON'')
           | Some config \<Rightarrow>
               (case get_property config ''mcpServers'' of
                  Inl e \<Rightarrow> Inl e
                | Inr None \<Rightarrow> Inl no_server_error
                | Inr (Some mcpServers) \<Rightarrow>
                    (if \<not> truthy mcpServers then Inl no_server_error
                     else
                       (case Object_entries mcpServers of
                          [] \<Rightarrow> Inl no_server_error
                        | (name, server) # others \<Rightarrow> checkServer name server)))))"

text \<open>The \<^verbatim>\<open>catch\<close> block (settings.ts, lines 79 to 87): what is thrown on.\<close>

definition rethrow :: "string \<Rightarrow> error \<Rightarrow> error" where
  "rethrow serverConfigPath e =
     (case e of
        ErrnoException code m \<Rightarrow>
          if code = ''ENOENT'' then Error (''MCP Config file not found: '' @ serverConfigPath)
          else e
      | SyntaxError m \<Rightarrow> Error (''Invalid MCP Config file: '' @ serverConfigPath)
      | other \<Rightarrow> e)"

definition getSettings :: "world \<Rightarrow> error + Settings" where
  "getSettings w =
     (let projectDir = module_projectDir w;
          serverConfigPath = path_join projectDir ''server-config.json'' in
      case env_DEEPSEEK_API_KEY w of
        None \<Rightarrow> Inl (Error ''DeepSeek API key is required. Please set DEEPSEEK_API_KEY in your .env file.'')
      | Some apiKey \<Rightarrow>
          if apiKey = [] then
            Inl (Error ''DeepSeek API key is required. Please set DEEPSEEK_API_KEY in your .env file.'')
          else
            (case readServerConfig w serverConfigPath of
               Inl e \<Rightarrow> Inl (rethrow serverConfigPath e)
             | Inr cfg \<Rightarrow>
                 Inr \<lparr>st_model = ''deepseek-chat'', st_apiKey = apiKey,
                      st_baseUrl = ''https://api.deepseek.com'', st_projectDir = projectDir,
                      st_serverConfigPath = serverConfigPath, st_serverConfig = Some cfg\<rparr>))"

text \<open>
  The program: \<^verbatim>\<open>settings.ts\<close> is evaluated when \<^verbatim>\<open>client.ts\<close> imports it, before
  anything of \<^verbatim>\<open>client.ts\<close> runs; an exception there ends the process (\<open>Inl\<close>), and
  \<^verbatim>\<open>main\<close> is called otherwise.
\<close>

definition program :: "world \<Rightarrow> string list \<Rightarrow> error + MCPClient option" where
  "program w lines =
     (case getSettings w of
        Inl e \<Rightarrow> Inl e
      | Inr settings \<Rightarrow> Inr (main settings w lines))"

section \<open>Notions used in the statements\<close>

text \<open>
  The client once the first request of a turn has gone out: the user message is
  pushed, the tools are listed, the request is sent.
\<close>

definition awaiting :: "MCPClient \<Rightarrow> string \<Rightarrow> McpTool list \<Rightarrow> MCPClient" where
  "awaiting c query tools =
     log_event (Create (first_request (push [UserMessage query] c) (available_tools_of tools)))
       (log_event ListTools (push [UserMessage query] c))"

text \<open>The event a requested call leaves in the trace, and the call a tool message answers.\<close>

definition call_event :: "world \<Rightarrow> ToolCall \<Rightarrow> event option" where
  "call_event w tc =
     map_option (CallTool (tc_function_name tc)) (JSON_parse w (tc_function_arguments tc))"

fun tool_call_id :: "ChatCompletionMessageParam \<Rightarrow> string option" where
  "tool_call_id (ToolMessage t i) = Some i"
| "tool_call_id m = None"

definition is_call_of :: "world \<Rightarrow> ToolCall \<Rightarrow> event \<Rightarrow> bool" where
  "is_call_of w tc ev =
     (case JSON_parse w (tc_function_arguments tc) of
        None \<Rightarrow> False
      | Some a \<Rightarrow> ev = CallTool (tc_function_name tc) a)"

definition answers :: "ToolCall \<Rightarrow> ChatCompletionMessageParam \<Rightarrow> bool" where
  "answers tc m = (case m of ToolMessage t i \<Rightarrow> i = tc_id tc | _ \<Rightarrow> False)"

text \<open>The completion requests among some events, in order.\<close>

fun requests_of :: "event list \<Rightarrow> CreateParams list" where
  "requests_of [] = []"
| "requests_of (Create r # es) = r # requests_of es"
| "requests_of (e # es) = requests_of es"

text \<open>The events only \<^verbatim>\<open>cleanup\<close> causes.\<close>

fun cleanup_event :: "event \<Rightarrow> bool" where
  "cleanup_event (MkdirSync d) = True"
| "cleanup_event (WriteFileSync ms) = True"
| "cleanup_event Close = True"
| "cleanup_event e = False"

fun is_write :: "event \<Rightarrow> bool" where
  "is_write (WriteFileSync ms) = True"
| "is_write e = False"

fun is_close :: "event \<Rightarrow> bool" where
  "is_close Close = True"
| "is_close e = False"

section \<open>Scenarios\<close>

text \<open>
  Concrete collaborators for the worked examples: a provider with one tool, a model
  that answers the first request of a turn with a given choice and a request without
  tools with the final text, and a file system that accepts every write.
\<close>

definition list_dir :: McpTool where
  "list_dir = \<lparr>tool_name = ''list_dir'', tool_description = ''List a directory'',
               tool_inputSchema = JObj []\<rparr>"

definition call_c1 :: ToolCall where
  "call_c1 = \<lparr>tc_id = ''c1'', tc_function_name = ''list_dir'', tc_function_arguments = ''{}''\<rparr>"

definition call_c2 :: ToolCall where
  "call_c2 = \<lparr>tc_id = ''c2'', tc_function_name = ''read_file'', tc_function_arguments = ''{}''\<rparr>"

text \<open>The configuration file: its text (a key for the parser only) and its value.\<close>

definition dq :: "string \<Rightarrow> string" where
  "dq s = [CHR 0x22] @ s @ [CHR 0x22]"

definition config_text :: string where
  "config_text =
     ''{'' @ dq ''mcpServers'' @ '': {'' @ dq ''fs'' @ '': {'' @ dq ''command'' @ '': '' @
     dq ''node'' @ '', '' @ dq ''args'' @ '': ['' @ dq ''server.js'' @ '']}}}''"

definition config_json :: json where
  "config_json =
     JObj [(''mcpServers'',
            JObj [(''fs'', JObj [(''command'', JStr ''node''),
                                 (''args'', JArr [JStr ''server.js''])])])]"

definition settings0 :: Settings where
  "settings0 =
     \<lparr>st_model = ''deepseek-chat'', st_apiKey = ''sk-test'',
      st_baseUrl = ''https://api.deepseek.com'', st_projectDir = ''/app'',
      st_serverConfigPath = ''/app/server-config.json'',
      st_serverConfig = Some \<lparr>sc_name = ''fs'', sc_command = JStr ''node'',
                                sc_args = [JStr ''server.js'']\<rparr>\<rparr>"

definition asks :: "ToolCall list \<Rightarrow> Choice" where
  "asks tcs = \<lparr>finish_reason = ''tool_calls'',
               message = \<lparr>cm_content = None, cm_tool_calls = Some tcs\<rparr>\<rparr>"

definition says :: "string \<Rightarrow> Choice" where
  "says t = \<lparr>finish_reason = ''stop'',
             message = \<lparr>cm_content = Some t, cm_tool_calls = None\<rparr>\<rparr>"

definition scenario :: "Choice \<Rightarrow> (string \<Rightarrow> error + CallToolResult) \<Rightarrow> world" where
  "scenario first_choice provider =
     \<lparr>env_DEEPSEEK_API_KEY = Some ''sk-test'',
      module_projectDir = ''/app'',
      readFileSync = (\<lambda>p.
         if p = ''/app/server-config.json'' then Inr config_text
         else Inl (ErrnoException ''ENOENT'' ''no such file or directory'')),
      JSON_parse = (\<lambda>s.
         if s = ''{}'' then Some (JObj [])
         else if s = config_text then Some config_json
         else None),
      stdio_client = (\<lambda>tr. None),
      initialize = (\<lambda>tr. None),
      list_tools = (\<lambda>tr. Inr [list_dir]),
      completions_create = (\<lambda>tr req.
         if req_tools req = None
         then Inr \<lparr>choices = [says ''The files are a.txt and b.txt.'']\<rparr>
         else Inr \<lparr>choices = [first_choice]\<rparr>),
      call_tool = (\<lambda>tr name args. provider name),
      existsSync = (\<lambda>tr. True),
      mkdirSync = (\<lambda>tr. None),
      writeFileSync = (\<lambda>tr. None),
      session_close = (\<lambda>tr. None)\<rparr>"

text \<open>Providers: one that lists the files, one that rejects every call, one whose
  result has no content item, one that knows \<^verbatim>\<open>list_dir\<close> only.\<close>

definition files :: "string \<Rightarrow> error + CallToolResult" where
  "files name =
     (if name = ''list_dir''
      then Inr \<lparr>content = [\<lparr>item_text = Some ''a.txt, b.txt''\<rparr>, \<lparr>item_text = Some ''ignored''\<rparr>]\<rparr>
      else Inl (Error ''Unknown tool''))"

definition failing :: "string \<Rightarrow> error + CallToolResult" where
  "failing name = Inl (Error ''Unknown tool'')"

definition nothing :: "string \<Rightarrow> error + CallToolResult" where
  "nothing name = Inr \<lparr>content = []\<rparr>"

definition second_fails :: "string \<Rightarrow> error + CallToolResult" where
  "second_fails name =
     (if name = ''list_dir'' then Inr \<lparr>content = [\<lparr>item_text = Some ''a.txt, b.txt''\<rparr>]\<rparr>
      else Inl (Error ''Unknown tool''))"

definition connected :: MCPClient where
  "connected =
     \<lparr>session = Some (ClientSession (JStr ''node'') [JStr ''server.js'']),
      model = ''deepseek-chat'',
      serverConfig = Some \<lparr>sc_name = ''fs'', sc_command = JStr ''node'',
                            sc_args = [JStr ''server.js'']\<rparr>,
      messages = [], trace = []\<rparr>"

text \<open>
  A session with one question: the client after \<^verbatim>\<open>connectToServer\<close>, the transcript after
  the answer, and the events up to the end of the loop.
\<close>

definition started :: MCPClient where
  "started =
     \<lparr>session = Some (ClientSession (JStr ''node'') [JStr ''server.js'']),
      model = ''deepseek-chat'',
      serverConfig = Some \<lparr>sc_name = ''fs'', sc_command = JStr ''node'',
                            sc_args = [JStr ''server.js'']\<rparr>,
      messages = [],
      trace = [StdioClient (JStr ''node'') [JStr ''server.js''], Initialize, ListTools]\<rparr>"

definition dialogue :: "ChatCompletionMessageParam list" where
  "dialogue = [UserMessage ''What is 2+2?'',
               AssistantMessage \<lparr>cm_content = Some ''4'', cm_tool_calls = None\<rparr>]"

definition session_log :: "event list" where
  "session_log =
     [StdioClient (JStr ''node'') [JStr ''server.js''], Initialize, ListTools,
      ListTools,
      Create \<lparr>req_model = ''deepseek-chat'', req_messages = [UserMessage ''What is 2+2?''],
              req_tools = Some (available_tools_of [list_dir]), req_tool_choice = Some ''auto''\<rparr>]"

definition answered :: MCPClient where
  "answered = started\<lparr>messages := dialogue, trace := session_log\<rparr>"

text \<open>A provider whose handshake fails after its process has been started.\<close>

definition handshake_fails :: world where
  "handshake_fails =
     (scenario (says ''4'') files)\<lparr>initialize := (\<lambda>tr. Some (Error ''handshake failed''))\<rparr>"

text \<open>
  Worlds for the start of the program: the API key of the environment, what reading
  the configuration file gives, and what parsing its text gives.
\<close>

definition startup_world ::
  "string option \<Rightarrow> (error + string) \<Rightarrow> json option \<Rightarrow> world" where
  "startup_world key file parsed =
     (scenario (says ''4'') files)
       \<lparr>env_DEEPSEEK_API_KEY := key, readFileSync := (\<lambda>p. file),
        JSON_parse := (\<lambda>s. parsed)\<rparr>"

text \<open>A configuration with two servers, the second without \<^verbatim>\<open>args\<close>.\<close>

definition two_servers :: json where
  "two_servers =
     JObj [(''mcpServers'',
            JObj [(''fs'', JObj [(''command'', JStr ''node''),
                                 (''args'', JArr [JStr ''server.js''])]),
                  (''web'', JObj [(''command'', JStr ''python'')])])]"

text \<open>The two requests of the turn with the call \<open>c1\<close>.\<close>

definition request_one :: CreateParams where
  "request_one =
     \<lparr>req_model = ''deepseek-chat'', req_messages = [UserMessage ''q''],
      req_tools = Some (available_tools_of [list_dir]), req_tool_choice = Some ''auto''\<rparr>"

definition request_two :: CreateParams where
  "request_two =
     \<lparr>req_model = ''deepseek-chat'',
      req_messages = [UserMessage ''q'',
                      AssistantMessage \<lparr>cm_content = None, cm_tool_calls = Some [call_c1]\<rparr>,
                      ToolMessage (Some ''a.txt, b.txt'') ''c1''],
      req_tools = None, req_tool_choice = None\<rparr>"

text \<open>A provider that knows both tools; its first result has a second content item.\<close>

definition both_tools :: "string \<Rightarrow> error + CallToolResult" where
  "both_tools name =
     (if name = ''list_dir''
      then Inr \<lparr>content = [\<lparr>item_text = Some ''a.txt, b.txt''\<rparr>, \<lparr>item_text = Some ''ignored''\<rparr>]\<rparr>
      else if name = ''read_file'' then Inr \<lparr>content = [\<lparr>item_text = Some ''hello''\<rparr>]\<rparr>
      else Inl (Error ''Unknown tool''))"

text \<open>A file system that refuses the write of the transcript.\<close>

definition write_fails :: world where
  "write_fails =
     (scenario (says ''4'') files)
       \<lparr>writeFileSync := (\<lambda>tr. Some (ErrnoException ''EACCES'' ''permission denied''))\<rparr>"

section \<open>Properties of the model\<close>

subsection \<open>Field updates\<close>

lemma push_simps [simp]:
  "messages (push ms c) = messages c @ ms"
  "trace (push ms c) = trace c"
  "session (push ms c) = session c"
  "model (push ms c) = model c"
  by (simp_all add: push_def)

lemma log_event_simps [simp]:
  "messages (log_event e c) = messages c"
  "trace (log_event e c) = trace c @ [e]"
  "session (log_event e c) = session c"
  "model (log_event e c) = model c"
  by (simp_all add: log_event_def)

lemma first_request_log_event:
  "first_request (log_event e c) ts = first_request c ts"
  by (simp add: first_request_def)

lemma awaiting_simps [simp]:
  "messages (awaiting c q tools) = messages c @ [UserMessage q]"
  "trace (awaiting c q tools) = trace c @ [ListTools,
      Create (first_request (push [UserMessage q] c) (available_tools_of tools))]"
  "session (awaiting c q tools) = session c"
  "model (awaiting c q tools) = model c"
  by (simp_all add: awaiting_def)

lemma requests_of_append: "requests_of (xs @ ys) = requests_of xs @ requests_of ys"
  by (induction xs rule: requests_of.induct) auto

lemmas scenario_defs = scenario_def files_def connected_def asks_def says_def call_c1_def
  call_c2_def list_dir_def processQuery_def handle_response_def finalize_def push_def
  log_event_def first_request_def second_request_def available_tools_of_def Let_def

subsection \<open>The collaborators of the scenarios\<close>

lemma connected_session:
  "session connected = Some (ClientSession (JStr ''node'') [JStr ''server.js''])"
  by (simp add: connected_def)

lemma scenario_list_tools: "list_tools (scenario ch pr) tr = Inr [list_dir]"
  by (simp add: scenario_def)

lemma scenario_first_response:
  "completions_create (scenario ch pr) tr (first_request c (available_tools_of [list_dir])) =
     Inr \<lparr>choices = [ch]\<rparr>"
  by (simp add: scenario_def first_request_def available_tools_of_def)

lemma scenario_parse: "JSON_parse (scenario ch pr) ''{}'' = Some (JObj [])"
  by (simp add: scenario_def)

lemma scenario_call_tool: "call_tool (scenario ch pr) tr name a = pr name"
  by (simp add: scenario_def)

lemma asks_simps:
  "finish_reason (asks tcs) = ''tool_calls''"
  "message (asks tcs) = \<lparr>cm_content = None, cm_tool_calls = Some tcs\<rparr>"
  by (simp_all add: asks_def)

lemma says_simps:
  "finish_reason (says t) \<noteq> ''tool_calls''"
  "message (says t) = \<lparr>cm_content = Some t, cm_tool_calls = None\<rparr>"
  by (simp_all add: says_def)

subsection \<open>The tool loop\<close>

text \<open>The loop works on its local array only: the transcript is as it was.\<close>

lemma tool_loop_messages: "messages (snd (tool_loop w c tcs buf)) = messages c"
  by (induction tcs arbitrary: c buf)
     (auto simp: Let_def split: option.splits sum.splits list.splits)

lemma tool_loop_session: "session (snd (tool_loop w c tcs buf)) = session c"
  by (induction tcs arbitrary: c buf)
     (auto simp: Let_def split: option.splits sum.splits list.splits)

lemma tool_loop_append:
  "tool_loop w c (pre @ rest) buf =
     (case tool_loop w c pre buf of
        (Inl e, c') \<Rightarrow> (Inl e, c')
      | (Inr buf', c') \<Rightarrow> tool_loop w c' rest buf')"
  by (induction pre arbitrary: c buf)
     (auto simp: Let_def split: option.splits sum.splits list.splits)

lemma tool_loop_success:
  "tool_loop w c tcs buf = (Inr out, c') \<Longrightarrow>
     \<exists>evs tms. trace c' = trace c @ evs \<and> out = buf @ tms \<and>
       list_all2 (is_call_of w) tcs evs \<and> list_all2 answers tcs tms"
proof (induction tcs arbitrary: c buf)
  case Nil
  then show ?case by simp
next
  case (Cons tc tcs)
  from Cons.prems obtain a r item others where
    a: "JSON_parse w (tc_function_arguments tc) = Some a"
    and r: "call_tool w (trace c) (tc_function_name tc) a = Inr r"
    and i: "content r = item # others"
    and rec: "tool_loop w (log_event (CallTool (tc_function_name tc) a) c) tcs
                (buf @ [ToolMessage (item_text item) (tc_id tc)]) = (Inr out, c')"
    by (auto simp: Let_def split: option.splits sum.splits list.splits)
  from Cons.IH [OF rec] obtain evs tms where
    "trace c' = trace c @ CallTool (tc_function_name tc) a # evs"
    "out = buf @ ToolMessage (item_text item) (tc_id tc) # tms"
    "list_all2 (is_call_of w) tcs evs" "list_all2 answers tcs tms"
    by auto
  moreover have "is_call_of w tc (CallTool (tc_function_name tc) a)"
    by (simp add: is_call_of_def a)
  moreover have "answers tc (ToolMessage (item_text item) (tc_id tc))"
    by (simp add: answers_def)
  ultimately show ?case
    by (intro exI [of _ "CallTool (tc_function_name tc) a # evs"]
              exI [of _ "ToolMessage (item_text item) (tc_id tc) # tms"]) simp
qed

lemma answers_ids:
  "list_all2 answers tcs tms \<Longrightarrow> map tool_call_id tms = map (\<lambda>tc. Some (tc_id tc)) tcs"
  by (induction rule: list_all2_induct)
     (auto simp: answers_def split: ChatCompletionMessageParam.splits)

lemma calls_events:
  "list_all2 (is_call_of w) tcs evs \<Longrightarrow> map (call_event w) tcs = map Some evs"
  by (induction rule: list_all2_induct)
     (auto simp: is_call_of_def call_event_def split: option.splits)

text \<open>The loop sends no completion request and causes no event of \<^verbatim>\<open>cleanup\<close>.\<close>

lemma tool_loop_trace:
  "\<exists>evs. trace (snd (tool_loop w c tcs buf)) = trace c @ evs \<and>
     requests_of evs = [] \<and> filter cleanup_event evs = []"
proof (induction tcs arbitrary: c buf)
  case Nil
  show ?case by simp
next
  case (Cons tc tcs)
  show ?case
  proof (cases "JSON_parse w (tc_function_arguments tc)")
    case None
    then show ?thesis by simp
  next
    case (Some a)
    let ?c' = "log_event (CallTool (tc_function_name tc) a) c"
    show ?thesis
    proof (cases "call_tool w (trace c) (tc_function_name tc) a")
      case (Inl e)
      with Some show ?thesis by (simp add: Let_def)
    next
      case (Inr r)
      show ?thesis
      proof (cases "content r")
        case Nil
        with Some Inr show ?thesis by (simp add: Let_def)
      next
        case (Cons item others)
        from Cons.IH [of ?c' "buf @ [ToolMessage (item_text item) (tc_id tc)]"]
        obtain evs where
          "trace (snd (tool_loop w ?c' tcs (buf @ [ToolMessage (item_text item) (tc_id tc)])))
             = trace c @ CallTool (tc_function_name tc) a # evs"
          "requests_of evs = []" "filter cleanup_event evs = []"
          by auto
        with Some Inr Cons show ?thesis by (simp add: Let_def)
      qed
    qed
  qed
qed

subsection \<open>One turn\<close>

lemma processQuery_response:
  assumes "session c = Some s"
    and "list_tools w (trace c) = Inr tools"
    and "completions_create w (trace c @ [ListTools])
           (first_request (push [UserMessage q] c) (available_tools_of tools)) = Inr resp"
  shows "processQuery w c q = handle_response w (awaiting c q tools) resp"
  using assms
  by (simp add: processQuery_def awaiting_def Let_def first_request_log_event)

lemma handle_response_plain:
  assumes "choices resp = ch # rest" and "finish_reason ch \<noteq> ''tool_calls''"
  shows "handle_response w c resp =
           (Inr (cm_content (message ch)), push [AssistantMessage (message ch)] c)"
  using assms by (simp add: handle_response_def)

lemma handle_response_tools:
  assumes "choices resp = ch # rest" and "finish_reason ch = ''tool_calls''"
    and "cm_tool_calls (message ch) = Some tcs"
  shows "handle_response w c resp =
           (case tool_loop w c tcs [] of
              (Inl e, c') \<Rightarrow> (Inl e, c')
            | (Inr tms, c') \<Rightarrow> finalize w c' (message ch) tms)"
  using assms by (simp add: handle_response_def)

lemma finalize_messages:
  "messages (snd (finalize w c msg tms)) = messages c @ AssistantMessage msg # tms"
  by (simp add: finalize_def Let_def split: sum.splits list.splits)

lemma finalize_trace:
  "trace (snd (finalize w c msg tms)) =
     trace c @ [Create (second_request (push tms (push [AssistantMessage msg] c)))]"
  by (simp add: finalize_def Let_def split: sum.splits list.splits)

lemma finalize_session: "session (snd (finalize w c msg tms)) = session c"
  by (simp add: finalize_def Let_def split: sum.splits list.splits)

text \<open>
  What handling a response does to the client, whatever the response: the transcript
  is extended, the session stays, and the events are at most the tool calls and one
  request without tools.
\<close>

lemma handle_response_frame:
  "prefix (messages c) (messages (snd (handle_response w c resp))) \<and>
   session (snd (handle_response w c resp)) = session c \<and>
   (\<exists>evs. trace (snd (handle_response w c resp)) = trace c @ evs \<and>
      filter cleanup_event evs = [] \<and>
      (requests_of evs = [] \<or> (\<exists>c'. requests_of evs = [second_request c'])))"
proof (cases "choices resp")
  case Nil
  then show ?thesis by (simp add: handle_response_def)
next
  case (Cons ch rest)
  show ?thesis
  proof (cases "finish_reason ch = ''tool_calls''")
    case False
    with Cons show ?thesis by (simp add: handle_response_plain)
  next
    case True
    show ?thesis
    proof (cases "cm_tool_calls (message ch)")
      case None
      with Cons True show ?thesis by (simp add: handle_response_def)
    next
      case (Some tcs)
      obtain r c' where tl: "tool_loop w c tcs [] = (r, c')" by (cases "tool_loop w c tcs []")
      have m: "messages c' = messages c"
        using tool_loop_messages [of w c tcs "[]"] tl by simp
      have s: "session c' = session c"
        using tool_loop_session [of w c tcs "[]"] tl by simp
      from tool_loop_trace [of w c tcs "[]"] tl obtain evs where
        evs: "trace c' = trace c @ evs" "requests_of evs = []" "filter cleanup_event evs = []"
        by auto
      show ?thesis
      proof (cases r)
        case (Inl e)
        with Cons True Some tl m s evs show ?thesis by (simp add: handle_response_tools)
      next
        case (Inr tms)
        let ?r2 = "second_request (push tms (push [AssistantMessage (message ch)] c'))"
        have run: "handle_response w c resp = finalize w c' (message ch) tms"
          using Cons True Some tl Inr by (simp add: handle_response_tools)
        have "trace (snd (handle_response w c resp)) = trace c @ (evs @ [Create ?r2])"
          by (simp add: run finalize_trace evs)
        moreover have "requests_of (evs @ [Create ?r2]) = [?r2]"
          using evs by (simp add: requests_of_append)
        moreover have "filter cleanup_event (evs @ [Create ?r2]) = []"
          using evs by simp
        moreover have "prefix (messages c) (messages (snd (handle_response w c resp)))"
          by (simp add: run finalize_messages m)
        moreover have "session (snd (handle_response w c resp)) = session c"
          by (simp add: run finalize_session s)
        ultimately show ?thesis by blast
      qed
    qed
  qed
qed

text \<open>The same for a whole turn: the user message is always pushed first.\<close>

lemma processQuery_frame:
  "prefix (messages c @ [UserMessage q]) (messages (snd (processQuery w c q))) \<and>
   session (snd (processQuery w c q)) = session c \<and>
   (\<exists>evs. trace (snd (processQuery w c q)) = trace c @ evs \<and>
      filter cleanup_event evs = [] \<and>
      (requests_of evs = [] \<or>
       (\<exists>tools rs. list_tools w (trace c) = Inr tools \<and>
          requests_of evs =
            first_request (push [UserMessage q] c) (available_tools_of tools) # rs \<and>
          (rs = [] \<or> (\<exists>c'. rs = [second_request c'])))))"
proof (cases "session c")
  case None
  then show ?thesis by (simp add: processQuery_def Let_def)
next
  case (Some s)
  show ?thesis
  proof (cases "list_tools w (trace c)")
    case (Inl e)
    with Some show ?thesis by (simp add: processQuery_def Let_def)
  next
    case (Inr tools)
    let ?r1 = "first_request (push [UserMessage q] c) (available_tools_of tools)"
    show ?thesis
    proof (cases "completions_create w (trace c @ [ListTools]) ?r1")
      case (Inl e)
      have run: "processQuery w c q =
          (Inl e, log_event (Create ?r1) (log_event ListTools (push [UserMessage q] c)))"
        using Some Inr Inl by (simp add: processQuery_def Let_def first_request_log_event)
      have "trace (snd (processQuery w c q)) = trace c @ [ListTools, Create ?r1]"
        by (simp add: run)
      moreover have "requests_of [ListTools, Create ?r1] = [?r1]" by simp
      moreover have "filter cleanup_event [ListTools, Create ?r1] = []" by simp
      moreover have "prefix (messages c @ [UserMessage q]) (messages (snd (processQuery w c q)))"
        by (simp add: run)
      moreover have "session (snd (processQuery w c q)) = session c"
        by (simp add: run)
      ultimately show ?thesis using Inr by blast
    next
      case resp: (Inr resp)
      have run: "processQuery w c q = handle_response w (awaiting c q tools) resp"
        by (rule processQuery_response [OF Some Inr resp])
      from handle_response_frame [of "awaiting c q tools" w resp] obtain evs where
        p: "prefix (messages (awaiting c q tools))
              (messages (snd (handle_response w (awaiting c q tools) resp)))"
        and s: "session (snd (handle_response w (awaiting c q tools) resp)) =
              session (awaiting c q tools)"
        and evs: "trace (snd (handle_response w (awaiting c q tools) resp)) =
                trace (awaiting c q tools) @ evs"
          "filter cleanup_event evs = []"
          "requests_of evs = [] \<or> (\<exists>c'. requests_of evs = [second_request c'])"
        by blast
      have "trace (snd (processQuery w c q)) = trace c @ ([ListTools, Create ?r1] @ evs)"
        using run evs(1) by simp
      moreover have "requests_of ([ListTools, Create ?r1] @ evs) = ?r1 # requests_of evs"
        by (simp add: requests_of_append)
      moreover have "filter cleanup_event ([ListTools, Create ?r1] @ evs) = []"
        using evs(2) by simp
      moreover have "prefix (messages c @ [UserMessage q]) (messages (snd (processQuery w c q)))"
        using run p by simp
      moreover have "session (snd (processQuery w c q)) = session c"
        using run s by simp
      ultimately show ?thesis using Inr evs(3) by metis
    qed
  qed
qed

subsection \<open>The loop, cleanup and main\<close>

lemma chatLoop_frame:
  "chatLoop w c ls = Some c' \<Longrightarrow>
     prefix (messages c) (messages c') \<and> session c' = session c \<and>
     (\<exists>evs. trace c' = trace c @ evs \<and> filter cleanup_event evs = [])"
proof (induction ls arbitrary: c)
  case Nil
  then show ?case by simp
next
  case (Cons line ls)
  show ?case
  proof (cases "toLowerCase (trim line) = ''quit''")
    case True
    with Cons.prems show ?thesis by simp
  next
    case False
    obtain r c1 where run: "processQuery w c (trim line) = (r, c1)"
      by (cases "processQuery w c (trim line)")
    from processQuery_frame [of c "trim line" w] run obtain evs where
      p: "prefix (messages c @ [UserMessage (trim line)]) (messages c1)"
      and s: "session c1 = session c"
      and t: "trace c1 = trace c @ evs" "filter cleanup_event evs = []"
      by auto
    from p have p': "prefix (messages c) (messages c1)"
      using append_prefixD by blast
    show ?thesis
    proof (cases r)
      case (Inl e)
      let ?c2 = "log_event (LoggerError (''Error: '' @ message_of e)) c1"
      from Cons.prems False run Inl have "chatLoop w ?c2 ls = Some c'" by (simp add: Let_def)
      from Cons.IH [OF this] obtain evs' where
        "prefix (messages c1) (messages c')" "session c' = session c1"
        "trace c' = trace c1 @ LoggerError (''Error: '' @ message_of e) # evs'"
        "filter cleanup_event evs' = []"
        by auto
      with p' s t show ?thesis by (auto intro: prefix_order.trans)
    next
      case (Inr a)
      from Cons.prems False run Inr have "chatLoop w c1 ls = Some c'" by (simp add: Let_def)
      from Cons.IH [OF this] obtain evs' where
        "prefix (messages c1) (messages c')" "session c' = session c1"
        "trace c' = trace c1 @ evs'" "filter cleanup_event evs' = []"
        by auto
      with p' s t show ?thesis by (auto intro: prefix_order.trans)
    qed
  qed
qed

lemma chatLoop_quits:
  assumes "\<forall>l \<in> set pre. toLowerCase (trim l) \<noteq> ''quit''"
    and "toLowerCase (trim line) = ''quit''"
  shows "\<exists>c'. chatLoop w c (pre @ line # rest) = Some c' \<and> chatLoop w c (pre @ [line]) = Some c'"
  using assms
proof (induction pre arbitrary: c)
  case Nil
  then show ?case by simp
next
  case (Cons l pre)
  then show ?case
    by (cases "processQuery w c (trim l)") (simp add: Let_def split: sum.splits)
qed


lemma cleanup_messages: "messages (snd (cleanup st w c)) = messages c"
  by (simp add: cleanup_def Let_def split: option.splits prod.splits if_splits)

text \<open>The events of one run of cleanup.\<close>

lemma cleanup_trace:
  "\<exists>evs. trace (snd (cleanup st w c)) = trace c @ evs \<and>
     length (filter is_write evs) \<le> 1 \<and> length (filter is_close evs) \<le> 1 \<and>
     (if existsSync w (trace c) \<or> mkdirSync w (trace c) = None
      then filter is_write evs = [WriteFileSync (messages c)]
      else filter is_write evs = [])"
  by (cases "existsSync w (trace c)"; cases "mkdirSync w (trace c)")
     (auto simp: cleanup_def Let_def split: option.splits)

lemma connectToServer_ok:
  assumes "connectToServer w c = (None, c1)"
  shows "session c1 \<noteq> None \<and> messages c1 = messages c \<and>
         (\<exists>evs. trace c1 = trace c @ evs \<and> filter cleanup_event evs = [])"
  using assms
  by (auto simp: connectToServer_def Let_def split: option.splits sum.splits)

lemma connectToServer_messages: "messages (snd (connectToServer w c)) = messages c"
  by (simp add: connectToServer_def Let_def split: option.splits sum.splits)

lemma filter_write_cleanup:
  "filter cleanup_event evs = [] \<Longrightarrow> filter is_write evs = [] \<and> filter is_close evs = []"
proof (induction evs)
  case Nil
  show ?case by simp
next
  case (Cons e evs)
  then show ?case by (cases e) (auto split: if_splits)
qed

lemma new_MCPClient_simps [simp]:
  "trace (new_MCPClient st) = []" "messages (new_MCPClient st) = []"
  "session (new_MCPClient st) = None"
  by (simp_all add: new_MCPClient_def)

lemma main_after_loop:
  assumes "connectToServer w (new_MCPClient st) = (None, c1)"
    and "chatLoop w c1 lines = Some c2"
  shows "\<exists>c3 lg. main st w lines = Some c3 \<and> messages c3 = messages c2 \<and>
           trace c3 = trace (snd (cleanup st w c2)) @ lg \<and>
           (lg = [] \<or> (\<exists>m. lg = [LoggerError m]))"
proof -
  obtain r c3 where cl: "cleanup st w c2 = (r, c3)" by (cases "cleanup st w c2")
  have m: "messages c3 = messages c2" using cleanup_messages [of st w c2] cl by simp
  show ?thesis
  proof (cases r)
    case None
    with assms cl m show ?thesis by (simp add: main_def Let_def)
  next
    case (Some e)
    with assms cl m show ?thesis by (simp add: main_def Let_def)
  qed
qed

lemma loop_trace_clean:
  assumes "connectToServer w (new_MCPClient st) = (None, c1)"
    and "chatLoop w c1 lines = Some c2"
  shows "filter cleanup_event (trace c2) = [] \<and> session c2 \<noteq> None"
proof -
  from connectToServer_ok [OF assms(1)] obtain evs where
    "session c1 \<noteq> None" "trace c1 = evs" "filter cleanup_event evs = []" by auto
  moreover from chatLoop_frame [OF assms(2)] obtain evs' where
    "session c2 = session c1" "trace c2 = trace c1 @ evs'" "filter cleanup_event evs' = []"
    by auto
  ultimately show ?thesis by simp
qed

lemma processQuery_changes: "snd (processQuery w c q) \<noteq> c"
proof
  assume "snd (processQuery w c q) = c"
  with processQuery_frame [of c q w] have "prefix (messages c @ [UserMessage q]) (messages c)"
    by simp
  then have "length (messages c @ [UserMessage q]) \<le> length (messages c)"
    by (rule prefix_length_le)
  then show False by simp
qed

lemma cleanup_ok:
  assumes "existsSync w (trace c) \<or> mkdirSync w (trace c) = None"
    and "mk = (if existsSync w (trace c) then []
               else [MkdirSync (path_join (st_projectDir st) ''history'')])"
    and "writeFileSync w (trace c @ mk) = None"
    and "session c \<noteq> None"
  shows "trace (snd (cleanup st w c)) = trace c @ mk @ [WriteFileSync (messages c), Close]"
proof (cases "existsSync w (trace c)")
  case True
  with assms show ?thesis by (auto simp: cleanup_def Let_def split: option.splits)
next
  case False
  with assms show ?thesis by (auto simp: cleanup_def Let_def split: option.splits)
qed


text \<open>The events of \<^verbatim>\<open>cleanup\<close>, case by case, for a client with a session.\<close>

lemma cleanup_events:
  assumes "session c \<noteq> None"
  shows "trace (snd (cleanup st w c)) = trace c @
     (if existsSync w (trace c) then []
      else [MkdirSync (path_join (st_projectDir st) ''history'')]) @
     (if \<not> existsSync w (trace c) \<and> mkdirSync w (trace c) \<noteq> None then []
      else WriteFileSync (messages c) #
        (if writeFileSync w (trace c @
              (if existsSync w (trace c) then []
               else [MkdirSync (path_join (st_projectDir st) ''history'')])) = None
         then [Close] else []))"
proof (cases "existsSync w (trace c)")
  case True
  with assms show ?thesis by (auto simp: cleanup_def Let_def split: option.splits)
next
  case False
  with assms show ?thesis by (auto simp: cleanup_def Let_def split: option.splits)
qed

text \<open>The normal path of \<^verbatim>\<open>main\<close>: the transcript is written, then the session closed.\<close>

lemma main_normal_quit:
  assumes "connectToServer w (new_MCPClient st) = (None, c1)"
    and "chatLoop w c1 lines = Some c2"
    and "existsSync w (trace c2) \<or> mkdirSync w (trace c2) = None"
    and "mk = (if existsSync w (trace c2) then []
               else [MkdirSync (path_join (st_projectDir st) ''history'')])"
    and "writeFileSync w (trace c2 @ mk) = None"
  shows "\<exists>c3 lg. main st w lines = Some c3 \<and> messages c3 = messages c2 \<and>
           trace c3 = trace c2 @ mk @ [WriteFileSync (messages c2), Close] @ lg \<and>
           (lg = [] \<or> (\<exists>m. lg = [LoggerError m]))"
proof -
  from loop_trace_clean [OF assms(1,2)] have s: "session c2 \<noteq> None" by simp
  from main_after_loop [OF assms(1,2)] obtain c3 lg where
    "main st w lines = Some c3" "messages c3 = messages c2"
    "trace c3 = trace (snd (cleanup st w c2)) @ lg" "lg = [] \<or> (\<exists>m. lg = [LoggerError m])"
    by blast
  with cleanup_ok [OF assms(3-5) s] show ?thesis by simp
qed

subsection \<open>The scenarios, evaluated\<close>

lemma quit_line: "toLowerCase (trim ''  QuIt '') = ''quit''"
  by code_simp

lemma question_line:
  "trim ''What is 2+2?'' = ''What is 2+2?''" "toLowerCase ''What is 2+2?'' \<noteq> ''quit''"
  by code_simp+

lemmas run_defs = main_def connectToServer_def cleanup_def new_MCPClient_def settings0_def
  path_join_def

lemma demo_connect:
  "connectToServer (scenario ch pr) (new_MCPClient settings0) = (None, started)"
  by (simp add: run_defs scenario_def log_event_def Let_def started_def)

lemma demo_turn:
  "processQuery (scenario (says ''4'') files) started ''What is 2+2?'' =
     (Inr (Some ''4''), answered)"
  by (simp add: scenario_defs started_def answered_def dialogue_def session_log_def)

lemma demo_loop:
  "chatLoop (scenario (says ''4'') files) started [''What is 2+2?'', ''  QuIt '', ''ignored''] =
     Some answered"
  by (simp add: demo_turn quit_line question_line)

lemma demo_cleanup:
  "cleanup settings0 (scenario (says ''4'') files) answered =
     (None, answered\<lparr>trace := session_log @ [WriteFileSync dialogue, Close]\<rparr>)"
  by (simp add: cleanup_def scenario_def answered_def started_def log_event_def Let_def)

lemma demo_main:
  "main settings0 (scenario (says ''4'') files) [''What is 2+2?'', ''  QuIt '', ''ignored''] =
     Some (answered\<lparr>trace := session_log @ [WriteFileSync dialogue, Close]\<rparr>)"
  by (simp add: main_def demo_connect demo_loop demo_cleanup del: chatLoop.simps)


lemma both_tools_simps:
  "both_tools ''list_dir'' =
     Inr \<lparr>content = [\<lparr>item_text = Some ''a.txt, b.txt''\<rparr>, \<lparr>item_text = Some ''ignored''\<rparr>]\<rparr>"
  "both_tools ''read_file'' = Inr \<lparr>content = [\<lparr>item_text = Some ''hello''\<rparr>]\<rparr>"
  by (simp_all add: both_tools_def)

lemma two_calls_loop:
  "tool_loop (scenario ch both_tools) c [call_c1, call_c2] [] =
     (Inr [ToolMessage (Some ''a.txt, b.txt'') ''c1'', ToolMessage (Some ''hello'') ''c2''],
      log_event (CallTool ''read_file'' (JObj [])) (log_event (CallTool ''list_dir'' (JObj [])) c))"
  by (simp add: scenario_parse scenario_call_tool both_tools_simps call_c1_def call_c2_def Let_def)

subsection \<open>Settings\<close>

lemma entries_truthy: "Object_entries m = e # es \<Longrightarrow> truthy m"
  by (cases m) auto

lemma checkServer_lacks:
  assumes "in_operator ''command'' server \<noteq> Inr True \<or> in_operator ''args'' server \<noteq> Inr True"
  shows "\<exists>e. checkServer name server = Inl e"
proof (cases "in_operator ''command'' server")
  case (Inl e)
  then show ?thesis by (simp add: checkServer_def)
next
  case c: (Inr b1)
  show ?thesis
  proof (cases "in_operator ''args'' server")
    case (Inl e)
    with c show ?thesis by (simp add: checkServer_def)
  next
    case (Inr b2)
    with c assms show ?thesis by (auto simp: checkServer_def)
  qed
qed

lemmas startup_defs = startup_world_def scenario_def program_def getSettings_def
  readServerConfig_def rethrow_def checkServer_def in_operator_def no_server_error_def
  path_join_def quoted_def Let_def

lemma settings_of_scenario: "getSettings (scenario ch pr) = Inr settings0"
  by (simp add: getSettings_def scenario_def settings0_def path_join_def readServerConfig_def
      config_text_def config_json_def dq_def checkServer_def in_operator_def Let_def)

lemma program_of_scenario:
  "program (scenario (says ''4'') files) [''What is 2+2?'', ''  QuIt '', ''ignored''] =
     Inr (Some (answered\<lparr>trace := session_log @ [WriteFileSync dialogue, Close]\<rparr>))"
  by (simp add: program_def settings_of_scenario demo_main del: chatLoop.simps)


section \<open>The claims about one turn\<close>

text \<open>
  C1. The claim: a turn in which the model requests \<open>n\<close> tool calls adds \<open>n + 3\<close>
  messages to the transcript, the last being the assistant message with the answer.
  The code returns the answer of the second completion without pushing it (client.ts,
  line 105), where the path without tool calls pushes the assistant message before it
  returns (line 108). In the scenario of the specification (one call \<open>c1\<close> to
  \<open>list_dir\<close>) the answer is returned and the transcript ends with the tool message:
  it has three entries, not four.
\<close>

theorem tool_round_omits_final_answer:
  "fst (processQuery (scenario (asks [call_c1]) files) connected ''List files in /tmp'') =
     Inr (Some ''The files are a.txt and b.txt.'') \<and>
   messages (snd (processQuery (scenario (asks [call_c1]) files) connected ''List files in /tmp'')) =
     [UserMessage ''List files in /tmp'',
      AssistantMessage \<lparr>cm_content = None, cm_tool_calls = Some [call_c1]\<rparr>,
      ToolMessage (Some ''a.txt, b.txt'') ''c1'']"
  by (simp add: scenario_defs)

text \<open>
  C2, as the code has it. When an invocation fails (the calls before it having
  succeeded), \<^verbatim>\<open>processQuery\<close> throws the provider's error as it is, and the transcript
  has gained the user message only: the assistant message with the requests is pushed
  after the loop, which is never reached, and no tool message is appended.
\<close>

theorem failed_tool_call_keeps_user_message_only:
  assumes "session c = Some s"
    and "list_tools w (trace c) = Inr tools"
    and "completions_create w (trace c @ [ListTools])
           (first_request (push [UserMessage q] c) (available_tools_of tools)) = Inr resp"
    and "choices resp = ch # rest"
    and "finish_reason ch = ''tool_calls''"
    and "cm_tool_calls (message ch) = Some (pre @ tc # post)"
    and "tool_loop w (awaiting c q tools) pre [] = (Inr buf, c1)"
    and "JSON_parse w (tc_function_arguments tc) = Some a"
    and "call_tool w (trace c1) (tc_function_name tc) a = Inl e"
  shows "processQuery w c q = (Inl e, log_event (CallTool (tc_function_name tc) a) c1) \<and>
         messages (snd (processQuery w c q)) = messages c @ [UserMessage q]"
proof -
  have loop: "tool_loop w (awaiting c q tools) (pre @ tc # post) [] =
          (Inl e, log_event (CallTool (tc_function_name tc) a) c1)"
    using assms(7-9) by (simp add: tool_loop_append Let_def)
  have run: "processQuery w c q = (Inl e, log_event (CallTool (tc_function_name tc) a) c1)"
    using assms(1-6) loop by (simp add: processQuery_response handle_response_tools)
  have "messages c1 = messages (awaiting c q tools)"
    using tool_loop_messages [of w "awaiting c q tools" pre "[]"] assms(7) by simp
  with run show ?thesis by simp
qed

theorem failed_tool_call_keeps_user_message_only_witness:
  "fst (processQuery (scenario (asks [call_c1]) failing) connected ''List files in /tmp'') =
     Inl (Error ''Unknown tool'') \<and>
   messages (snd (processQuery (scenario (asks [call_c1]) failing) connected ''List files in /tmp'')) =
     [UserMessage ''List files in /tmp'']"
proof -
  let ?w = "scenario (asks [call_c1]) failing"
  let ?c = "awaiting connected ''List files in /tmp'' [list_dir]"
  have first: "choices \<lparr>choices = [asks [call_c1]]\<rparr> = asks [call_c1] # []"
    by simp
  have requested: "cm_tool_calls (message (asks [call_c1])) = Some ([] @ call_c1 # [])"
    by (simp add: asks_simps)
  have before: "tool_loop ?w ?c [] [] = (Inr [], ?c)"
    by simp
  have parsed: "JSON_parse ?w (tc_function_arguments call_c1) = Some (JObj [])"
    by (simp add: call_c1_def scenario_parse)
  have rejected: "call_tool ?w (trace ?c) (tc_function_name call_c1) (JObj []) =
      Inl (Error ''Unknown tool'')"
    by (simp add: scenario_call_tool failing_def)
  from failed_tool_call_keeps_user_message_only
    [OF connected_session scenario_list_tools scenario_first_response first asks_simps(1)
        requested before parsed rejected]
  show ?thesis by (simp add: connected_def)
qed

text \<open>
  C2 as stated fails: with a provider that rejects the call \<open>c1\<close>, the transcript holds
  one message after the turn, not two, and the error is the provider's own.
\<close>

theorem failed_tool_call_transcript_counterexample:
  "length (messages (snd (processQuery (scenario (asks [call_c1]) failing) connected
      ''List files in /tmp''))) = 1 \<and>
   fst (processQuery (scenario (asks [call_c1]) failing) connected ''List files in /tmp'') =
     Inl (Error ''Unknown tool'')"
  by (simp add: scenario_defs failing_def)

text \<open>
  C4, as the code has it. In a turn whose tool calls all succeed, the calls reach the
  provider one after the other in the order of the request, between the two completion
  requests; their result messages are collected in the local array and reach the
  transcript together after the last call, behind the assistant message, in the order
  of the calls. After any number \<open>k\<close> of the calls the transcript still holds the user
  message only.
\<close>

theorem tool_calls_sequential_buffered:
  assumes "session c = Some s"
    and "list_tools w (trace c) = Inr tools"
    and "completions_create w (trace c @ [ListTools])
           (first_request (push [UserMessage q] c) (available_tools_of tools)) = Inr resp"
    and "choices resp = ch # rest"
    and "finish_reason ch = ''tool_calls''"
    and "cm_tool_calls (message ch) = Some tcs"
    and "tool_loop w (awaiting c q tools) tcs [] = (Inr tms, c1)"
  shows "\<exists>evs final.
           trace (snd (processQuery w c q)) =
             trace c @ [ListTools, Create (first_request (push [UserMessage q] c)
                                             (available_tools_of tools))] @ evs @ [Create final] \<and>
           map (call_event w) tcs = map Some evs \<and>
           messages (snd (tool_loop w (awaiting c q tools) (take k tcs) [])) =
             messages c @ [UserMessage q] \<and>
           messages (snd (processQuery w c q)) =
             messages c @ [UserMessage q, AssistantMessage (message ch)] @ tms \<and>
           map tool_call_id tms = map (\<lambda>tc. Some (tc_id tc)) tcs"
proof -
  from tool_loop_success [OF assms(7)] obtain evs where
    tr: "trace c1 = trace (awaiting c q tools) @ evs"
    and calls: "list_all2 (is_call_of w) tcs evs" and ans: "list_all2 answers tcs tms"
    by auto
  have m1: "messages c1 = messages c @ [UserMessage q]"
    using tool_loop_messages [of w "awaiting c q tools" tcs "[]"] assms(7) by simp
  have run: "processQuery w c q = finalize w c1 (message ch) tms"
    using assms by (simp add: processQuery_response handle_response_tools)
  have "trace (snd (processQuery w c q)) =
      trace c @ [ListTools, Create (first_request (push [UserMessage q] c)
         (available_tools_of tools))] @ evs @
      [Create (second_request (push tms (push [AssistantMessage (message ch)] c1)))]"
    by (simp add: run finalize_trace tr)
  moreover have "messages (snd (processQuery w c q)) =
      messages c @ [UserMessage q, AssistantMessage (message ch)] @ tms"
    by (simp add: run finalize_messages m1)
  moreover have "messages (snd (tool_loop w (awaiting c q tools) (take k tcs) [])) =
      messages c @ [UserMessage q]"
    by (simp add: tool_loop_messages)
  ultimately show ?thesis
    using calls_events [OF calls] answers_ids [OF ans] by blast
qed

theorem tool_calls_sequential_buffered_witness:
  "\<exists>final.
     trace (snd (processQuery (scenario (asks [call_c1, call_c2]) both_tools) connected ''q'')) =
       trace connected @ [ListTools, Create request_one] @
         [CallTool ''list_dir'' (JObj []), CallTool ''read_file'' (JObj [])] @ [Create final] \<and>
     messages (snd (tool_loop (scenario (asks [call_c1, call_c2]) both_tools)
        (awaiting connected ''q'' [list_dir]) (take 1 [call_c1, call_c2]) [])) =
        [UserMessage ''q''] \<and>
     messages (snd (processQuery (scenario (asks [call_c1, call_c2]) both_tools) connected ''q'')) =
       [UserMessage ''q'', AssistantMessage (message (asks [call_c1, call_c2])),
        ToolMessage (Some ''a.txt, b.txt'') ''c1'', ToolMessage (Some ''hello'') ''c2''] \<and>
     map tool_call_id [ToolMessage (Some ''a.txt, b.txt'') ''c1'', ToolMessage (Some ''hello'') ''c2''] =
       [Some ''c1'', Some ''c2'']"
proof -
  let ?w = "scenario (asks [call_c1, call_c2]) both_tools"
  let ?c = "awaiting connected ''q'' [list_dir]"
  have first: "choices \<lparr>choices = [asks [call_c1, call_c2]]\<rparr> = asks [call_c1, call_c2] # []"
    by simp
  have requested: "cm_tool_calls (message (asks [call_c1, call_c2])) = Some [call_c1, call_c2]"
    by (simp add: asks_simps)
  have r1: "first_request (push [UserMessage ''q''] connected) (available_tools_of [list_dir]) =
      request_one"
    by (simp add: first_request_def request_one_def connected_def available_tools_of_def)
  from tool_calls_sequential_buffered
    [where q = "''q''" and k = 1,
     OF connected_session scenario_list_tools scenario_first_response first asks_simps(1)
        requested two_calls_loop]
  obtain evs final where
    t: "trace (snd (processQuery ?w connected ''q'')) =
         trace connected @ [ListTools, Create request_one] @ evs @ [Create final]"
    and e: "map (call_event ?w) [call_c1, call_c2] = map Some evs"
    and k: "messages (snd (tool_loop ?w ?c (take 1 [call_c1, call_c2]) [])) =
         messages connected @ [UserMessage ''q'']"
    and m: "messages (snd (processQuery ?w connected ''q'')) =
         messages connected @ [UserMessage ''q'', AssistantMessage (message (asks [call_c1, call_c2]))] @
         [ToolMessage (Some ''a.txt, b.txt'') ''c1'', ToolMessage (Some ''hello'') ''c2'']"
    and i: "map tool_call_id
          [ToolMessage (Some ''a.txt, b.txt'') ''c1'', ToolMessage (Some ''hello'') ''c2''] =
         map (\<lambda>tc. Some (tc_id tc)) [call_c1, call_c2]"
    unfolding r1 by blast
  from e have "map Some evs =
      [Some (CallTool ''list_dir'' (JObj [])), Some (CallTool ''read_file'' (JObj []))]"
    by (simp add: call_event_def scenario_parse call_c1_def call_c2_def)
  then have evs: "evs = [CallTool ''list_dir'' (JObj []), CallTool ''read_file'' (JObj [])]"
    by (auto simp: map_eq_Cons_conv)
  from t k m i evs show ?thesis
    by (intro exI [of _ final]) (simp add: connected_def call_c1_def call_c2_def)
qed

text \<open>
  C4 as stated fails: the model requests \<open>c1\<close> and then \<open>c2\<close>, the first call succeeds
  and the second is rejected. Both calls have run, in order, and the transcript holds
  the user message only: the result of \<open>c1\<close> was not appended before \<open>c2\<close> ran.
\<close>

theorem tool_results_not_appended_between_calls:
  "trace (snd (processQuery (scenario (asks [call_c1, call_c2]) second_fails) connected ''q'')) =
     [ListTools,
      Create \<lparr>req_model = ''deepseek-chat'', req_messages = [UserMessage ''q''],
              req_tools = Some (available_tools_of [list_dir]), req_tool_choice = Some ''auto''\<rparr>,
      CallTool ''list_dir'' (JObj []), CallTool ''read_file'' (JObj [])] \<and>
   messages (snd (processQuery (scenario (asks [call_c1, call_c2]) second_fails) connected ''q'')) =
     [UserMessage ''q'']"
  by (simp add: scenario_defs second_fails_def)

text \<open>
  C5. In a turn whose first response does not finish with \<^verbatim>\<open>tool_calls\<close> (the test of the
  code for a request of tool calls), \<^verbatim>\<open>processQuery\<close> returns, the transcript gains the
  user message and then the assistant message, two messages, and the value returned
  is the content of that assistant message.
\<close>

theorem turn_without_tool_calls:
  assumes "session c = Some s"
    and "list_tools w (trace c) = Inr tools"
    and "completions_create w (trace c @ [ListTools])
           (first_request (push [UserMessage q] c) (available_tools_of tools)) = Inr resp"
    and "choices resp = ch # rest"
    and "finish_reason ch \<noteq> ''tool_calls''"
  shows "fst (processQuery w c q) = Inr (cm_content (message ch)) \<and>
         messages (snd (processQuery w c q)) =
           messages c @ [UserMessage q, AssistantMessage (message ch)]"
  using assms by (simp add: processQuery_response handle_response_plain)

theorem turn_without_tool_calls_witness:
  "fst (processQuery (scenario (says ''4'') files) connected ''What is 2+2?'') = Inr (Some ''4'') \<and>
   messages (snd (processQuery (scenario (says ''4'') files) connected ''What is 2+2?'')) =
     [UserMessage ''What is 2+2?'',
      AssistantMessage \<lparr>cm_content = Some ''4'', cm_tool_calls = None\<rparr>]"
proof -
  have first: "choices \<lparr>choices = [says ''4'']\<rparr> = says ''4'' # []"
    by simp
  from turn_without_tool_calls
    [OF connected_session scenario_list_tools scenario_first_response first says_simps(1)]
  show ?thesis by (simp add: says_simps connected_def)
qed

text \<open>
  C6. Of the completion requests a turn sends, the first carries the tools of the
  provider, and no \<^verbatim>\<open>tools\<close> field at all exactly when the provider has none (never an
  empty list); every later one, that is the request after a tool round, carries neither
  \<^verbatim>\<open>tools\<close> nor \<^verbatim>\<open>tool_choice\<close>.
\<close>

theorem tools_field_of_requests:
  assumes "trace (snd (processQuery w c q)) = trace c @ evs"
    and "requests_of evs = r # rs"
  shows "req_tools r \<noteq> Some [] \<and>
         (req_tools r = None \<longleftrightarrow> list_tools w (trace c) = Inr []) \<and>
         (\<forall>r' \<in> set rs. req_tools r' = None \<and> req_tool_choice r' = None)"
proof -
  from processQuery_frame [of c q w] assms obtain tools rs' where
    t: "list_tools w (trace c) = Inr tools"
    and r: "r # rs = first_request (push [UserMessage q] c) (available_tools_of tools) # rs'"
    and rs': "rs' = [] \<or> (\<exists>c'. rs' = [second_request c'])"
    by auto
  have "req_tools r \<noteq> Some []" using r by (simp add: first_request_def)
  moreover have "req_tools r = None \<longleftrightarrow> list_tools w (trace c) = Inr []"
    using r t by (simp add: first_request_def available_tools_of_def)
  moreover have "\<forall>r' \<in> set rs. req_tools r' = None \<and> req_tool_choice r' = None"
    using r rs' by (auto simp: second_request_def)
  ultimately show ?thesis by blast
qed

theorem tools_field_of_requests_witness:
  "trace (snd (processQuery (scenario (asks [call_c1]) files) connected ''q'')) =
     trace connected @
       [ListTools, Create request_one, CallTool ''list_dir'' (JObj []), Create request_two] \<and>
   req_tools request_one \<noteq> Some [] \<and> req_tools request_one \<noteq> None \<and>
   req_tools request_two = None \<and> req_tool_choice request_two = None"
proof -
  let ?w = "scenario (asks [call_c1]) files"
  have run: "trace (snd (processQuery ?w connected ''q'')) =
      trace connected @
        [ListTools, Create request_one, CallTool ''list_dir'' (JObj []), Create request_two]"
    by (simp add: scenario_defs request_one_def request_two_def)
  have sent: "requests_of
      [ListTools, Create request_one, CallTool ''list_dir'' (JObj []), Create request_two] =
      request_one # [request_two]"
    by simp
  have listed: "list_tools ?w (trace connected) \<noteq> Inr []"
    by (simp add: scenario_list_tools)
  from tools_field_of_requests [OF run sent] listed run
  show ?thesis by simp
qed

text \<open>
  C10. When an invocation returns a result (the calls before it having succeeded): if
  the result has no content item, reading the first one throws a \<^verbatim>\<open>TypeError\<close>, so the
  turn fails and the transcript gains the user message only, no tool message; if it has
  items, the tool message collected for the call carries the text of the first item
  and the identifier of the call, whatever the other items are, and when the other
  calls succeed too that message is in the transcript, at the place of its call among
  the tool messages, of which there is one for each call.
\<close>

theorem tool_result_first_item_only:
  assumes "session c = Some s"
    and "list_tools w (trace c) = Inr tools"
    and "completions_create w (trace c @ [ListTools])
           (first_request (push [UserMessage q] c) (available_tools_of tools)) = Inr resp"
    and "choices resp = ch # rest"
    and "finish_reason ch = ''tool_calls''"
    and "cm_tool_calls (message ch) = Some (pre @ tc # post)"
    and "tool_loop w (awaiting c q tools) pre [] = (Inr buf, c1)"
    and "JSON_parse w (tc_function_arguments tc) = Some a"
    and "call_tool w (trace c1) (tc_function_name tc) a = Inr result"
  shows "(content result = [] \<longrightarrow>
            (\<exists>m. fst (processQuery w c q) = Inl (TypeError m)) \<and>
            messages (snd (processQuery w c q)) = messages c @ [UserMessage q]) \<and>
         (\<forall>item others. content result = item # others \<longrightarrow>
            tool_loop w (awaiting c q tools) (pre @ [tc]) [] =
              (Inr (buf @ [ToolMessage (item_text item) (tc_id tc)]),
               log_event (CallTool (tc_function_name tc) a) c1)) \<and>
         (\<forall>item others tms c2.
            content result = item # others \<and>
            tool_loop w (awaiting c q tools) (pre @ tc # post) [] = (Inr tms, c2) \<longrightarrow>
            messages (snd (processQuery w c q)) =
              messages c @ [UserMessage q, AssistantMessage (message ch)] @ tms \<and>
            length tms = length pre + 1 + length post \<and>
            tms ! length pre = ToolMessage (item_text item) (tc_id tc))"
proof (intro conjI impI allI)
  assume empty: "content result = []"
  have "\<exists>m. tool_loop w (awaiting c q tools) (pre @ tc # post) [] =
          (Inl (TypeError m), log_event (CallTool (tc_function_name tc) a) c1)"
    using assms(7-9) empty by (simp add: tool_loop_append Let_def)
  then obtain m where loop: "tool_loop w (awaiting c q tools) (pre @ tc # post) [] =
          (Inl (TypeError m), log_event (CallTool (tc_function_name tc) a) c1)" ..
  have run: "processQuery w c q =
      (Inl (TypeError m), log_event (CallTool (tc_function_name tc) a) c1)"
    using assms(1-6) loop by (simp add: processQuery_response handle_response_tools)
  then show "\<exists>m. fst (processQuery w c q) = Inl (TypeError m)" by simp
  have "messages c1 = messages (awaiting c q tools)"
    using tool_loop_messages [of w "awaiting c q tools" pre "[]"] assms(7) by simp
  with run show "messages (snd (processQuery w c q)) = messages c @ [UserMessage q]" by simp
next
  fix item others
  assume "content result = item # others"
  then show "tool_loop w (awaiting c q tools) (pre @ [tc]) [] =
      (Inr (buf @ [ToolMessage (item_text item) (tc_id tc)]),
       log_event (CallTool (tc_function_name tc) a) c1)"
    using assms(7-9) by (simp add: tool_loop_append Let_def)
next
  fix item others tms c2
  assume h: "content result = item # others \<and>
      tool_loop w (awaiting c q tools) (pre @ tc # post) [] = (Inr tms, c2)"
  let ?m = "ToolMessage (item_text item) (tc_id tc)"
  let ?c1 = "log_event (CallTool (tc_function_name tc) a) c1"
  from h have items: "content result = item # others"
    and whole: "tool_loop w (awaiting c q tools) (pre @ tc # post) [] = (Inr tms, c2)"
    by simp_all
  from whole assms(7-9) items have rest: "tool_loop w ?c1 post (buf @ [?m]) = (Inr tms, c2)"
    by (simp add: tool_loop_append Let_def)
  from tool_loop_success [OF assms(7)] have lb: "length buf = length pre"
    by (auto dest: list_all2_lengthD)
  from tool_loop_success [OF rest] obtain more where
    tms: "tms = (buf @ [?m]) @ more" and lm: "length more = length post"
    by (auto dest: list_all2_lengthD)
  have m2: "messages c2 = messages c @ [UserMessage q]"
    using tool_loop_messages [of w "awaiting c q tools" "pre @ tc # post" "[]"] h by simp
  have run: "processQuery w c q = finalize w c2 (message ch) tms"
    using assms(1-6) h by (simp add: processQuery_response handle_response_tools)
  show "messages (snd (processQuery w c q)) =
      messages c @ [UserMessage q, AssistantMessage (message ch)] @ tms"
    by (simp add: run finalize_messages m2)
  show "length tms = length pre + 1 + length post"
    by (simp add: tms lb lm)
  show "tms ! length pre = ?m"
    using lb by (simp add: tms nth_append)
qed

theorem tool_result_first_item_only_witness:
  "(\<exists>m. fst (processQuery (scenario (asks [call_c1]) nothing) connected ''q'') = Inl (TypeError m)) \<and>
   messages (snd (processQuery (scenario (asks [call_c1]) nothing) connected ''q'')) =
     [UserMessage ''q''] \<and>
   tool_loop (scenario (asks [call_c1, call_c2]) both_tools)
      (awaiting connected ''q'' [list_dir]) [call_c1] [] =
     (Inr [ToolMessage (Some ''a.txt, b.txt'') ''c1''],
      log_event (CallTool ''list_dir'' (JObj [])) (awaiting connected ''q'' [list_dir])) \<and>
   messages (snd (processQuery (scenario (asks [call_c1, call_c2]) both_tools) connected ''q'')) =
     [UserMessage ''q'', AssistantMessage (message (asks [call_c1, call_c2])),
      ToolMessage (Some ''a.txt, b.txt'') ''c1'', ToolMessage (Some ''hello'') ''c2'']"
proof -
  let ?c = "awaiting connected ''q'' [list_dir]"
  let ?w2 = "scenario (asks [call_c1, call_c2]) both_tools"
  let ?two = "\<lparr>content = [\<lparr>item_text = Some ''a.txt, b.txt''\<rparr>, \<lparr>item_text = Some ''ignored''\<rparr>]\<rparr>"
  let ?tms = "[ToolMessage (Some ''a.txt, b.txt'') ''c1'', ToolMessage (Some ''hello'') ''c2'']"
  have first: "\<And>ch. choices \<lparr>choices = [ch]\<rparr> = ch # []"
    by simp
  have one: "cm_tool_calls (message (asks [call_c1])) = Some ([] @ call_c1 # [])"
    by (simp add: asks_simps)
  have both: "cm_tool_calls (message (asks [call_c1, call_c2])) = Some ([] @ call_c1 # [call_c2])"
    by (simp add: asks_simps)
  have before: "\<And>w. tool_loop w ?c [] [] = (Inr [], ?c)"
    by simp
  have parsed: "\<And>ch pr. JSON_parse (scenario ch pr) (tc_function_arguments call_c1) =
      Some (JObj [])"
    by (simp add: call_c1_def scenario_parse)
  have empty: "call_tool (scenario (asks [call_c1]) nothing) (trace ?c)
      (tc_function_name call_c1) (JObj []) = Inr \<lparr>content = []\<rparr>"
    by (simp add: scenario_call_tool nothing_def)
  have two: "call_tool ?w2 (trace ?c) (tc_function_name call_c1) (JObj []) = Inr ?two"
    by (simp add: scenario_call_tool both_tools_simps call_c1_def)
  have items: "content ?two = \<lparr>item_text = Some ''a.txt, b.txt''\<rparr> # [\<lparr>item_text = Some ''ignored''\<rparr>]"
    by simp
  have whole: "tool_loop ?w2 ?c ([] @ call_c1 # [call_c2]) [] =
      (Inr ?tms, log_event (CallTool ''read_file'' (JObj []))
         (log_event (CallTool ''list_dir'' (JObj [])) ?c))"
    using two_calls_loop [of "asks [call_c1, call_c2]" ?c] by simp
  from tool_result_first_item_only
    [where q = "''q''", OF connected_session scenario_list_tools scenario_first_response first asks_simps(1)
        one before parsed empty]
  have a: "(\<exists>m. fst (processQuery (scenario (asks [call_c1]) nothing) connected ''q'') =
              Inl (TypeError m)) \<and>
      messages (snd (processQuery (scenario (asks [call_c1]) nothing) connected ''q'')) =
        [UserMessage ''q'']"
    by (simp add: connected_def)
  note pos = tool_result_first_item_only
    [where q = "''q''", OF connected_session scenario_list_tools scenario_first_response first asks_simps(1)
        both before parsed two]
  from pos items have b: "tool_loop ?w2 ?c [call_c1] [] =
     (Inr [ToolMessage (Some ''a.txt, b.txt'') ''c1''],
      log_event (CallTool ''list_dir'' (JObj [])) ?c)"
    by (simp add: call_c1_def)
  from pos items whole have c: "messages (snd (processQuery ?w2 connected ''q'')) =
     messages connected @
       [UserMessage ''q'', AssistantMessage (message (asks [call_c1, call_c2]))] @ ?tms"
    by blast
  from a b c show ?thesis by (simp add: connected_def)
qed

section \<open>The claims about the session\<close>

text \<open>
  C3. The claim: however the process ends, the session is closed and the transcript
  written before it exits. \<^verbatim>\<open>main\<close> calls \<^verbatim>\<open>cleanup\<close> as the last statement of its
  \<^verbatim>\<open>try\<close> block, and its \<^verbatim>\<open>catch\<close> only logs (client.ts, lines 154 to 161), although
  \<^verbatim>\<open>cleanup\<close> tests \<^verbatim>\<open>this.session\<close> for a case that this one call never meets. When
  the handshake of the provider throws, the session object exists and the provider
  process has been started, and \<^verbatim>\<open>main\<close> returns with nothing written and nothing
  closed. When the write of the transcript throws after a normal \<^verbatim>\<open>quit\<close>, the close
  that follows it in \<^verbatim>\<open>cleanup\<close> is skipped and the session stays open.
\<close>

theorem cleanup_missing_on_error_paths:
  "map_option trace (main settings0 handshake_fails [''quit'']) =
     Some [StdioClient (JStr ''node'') [JStr ''server.js''], Initialize,
           LoggerError ''handshake failed''] \<and>
   map_option session (main settings0 handshake_fails [''quit'']) =
     Some (Some (ClientSession (JStr ''node'') [JStr ''server.js''])) \<and>
   map_option trace (main settings0 write_fails [''quit'']) =
     Some [StdioClient (JStr ''node'') [JStr ''server.js''], Initialize, ListTools,
           WriteFileSync [], LoggerError ''permission denied''] \<and>
   map_option session (main settings0 write_fails [''quit'']) =
     Some (Some (ClientSession (JStr ''node'') [JStr ''server.js'']))"
proof -
  have q: "toLowerCase (trim ''quit'') = ''quit''" by code_simp
  have a: "map_option trace (main settings0 handshake_fails [''quit'']) =
     Some [StdioClient (JStr ''node'') [JStr ''server.js''], Initialize,
           LoggerError ''handshake failed'']"
    by (simp add: handshake_fails_def run_defs scenario_def log_event_def Let_def)
  have b: "map_option session (main settings0 handshake_fails [''quit'']) =
     Some (Some (ClientSession (JStr ''node'') [JStr ''server.js'']))"
    by (simp add: handshake_fails_def run_defs scenario_def log_event_def Let_def)
  have c: "main settings0 write_fails [''quit''] =
     Some (started\<lparr>trace := trace started @
        [WriteFileSync [], LoggerError ''permission denied'']\<rparr>)"
    by (simp add: write_fails_def run_defs scenario_def log_event_def Let_def q started_def)
  from a b c show ?thesis by (simp add: started_def)
qed

text \<open>
  C7. A line that is \<^verbatim>\<open>quit\<close> once trimmed and put in lower case ends the loop with the
  client as it is (a turn always changes the client, so none has run for that line),
  whatever lines follow. When it is the first such line of a session whose connection
  was made, \<^verbatim>\<open>main\<close> returns; nothing before the end of the loop has made the
  directory, written the transcript or closed the session, and the events of that kind
  afterwards are those of one run of \<^verbatim>\<open>cleanup\<close>: the directory is made if it is
  missing; then, unless that failed, the transcript at the end of the loop is written,
  once; then, if the write succeeded, the session is closed, once.
\<close>

theorem quit_ends_loop_cleanup_once:
  assumes "toLowerCase (trim line) = ''quit''"
    and "\<forall>l \<in> set pre. toLowerCase (trim l) \<noteq> ''quit''"
    and "connectToServer w (new_MCPClient st) = (None, c1)"
  shows "chatLoop w c (line # rest) = Some c \<and> snd (processQuery w c (trim line)) \<noteq> c \<and>
         (\<exists>c2 c3. chatLoop w c1 (pre @ line # rest) = Some c2 \<and>
            main st w (pre @ line # rest) = Some c3 \<and>
            filter cleanup_event (trace c2) = [] \<and>
            length (filter is_write (trace c3)) \<le> 1 \<and>
            length (filter is_close (trace c3)) \<le> 1 \<and>
            (if existsSync w (trace c2) \<or> mkdirSync w (trace c2) = None
             then filter is_write (trace c3) = [WriteFileSync (messages c2)]
             else filter is_write (trace c3) = []) \<and>
            (let mk = (if existsSync w (trace c2) then []
                       else [MkdirSync (path_join (st_projectDir st) ''history'')]);
                 made = (existsSync w (trace c2) \<or> mkdirSync w (trace c2) = None);
                 written = (made \<and> writeFileSync w (trace c2 @ mk) = None)
             in filter cleanup_event (trace c3) =
                  mk @ (if made
                        then WriteFileSync (messages c2) # (if written then [Close] else [])
                        else []) \<and>
                (if written then filter is_close (trace c3) = [Close]
                 else filter is_close (trace c3) = [])))"
proof -
  have stop: "chatLoop w c (line # rest) = Some c" using assms(1) by simp
  from chatLoop_quits [OF assms(2) assms(1), of w c1 rest] obtain c2 where
    loop: "chatLoop w c1 (pre @ line # rest) = Some c2" by blast
  from loop_trace_clean [OF assms(3) loop] have clean: "filter cleanup_event (trace c2) = []"
    and sess: "session c2 \<noteq> None"
    by simp_all
  from clean have nowr: "filter is_write (trace c2) = []" "filter is_close (trace c2) = []"
    using filter_write_cleanup by blast+
  from main_after_loop [OF assms(3) loop] obtain c3 lg where
    m: "main st w (pre @ line # rest) = Some c3"
    and t: "trace c3 = trace (snd (cleanup st w c2)) @ lg"
    and lg: "lg = [] \<or> (\<exists>m. lg = [LoggerError m])"
    by blast
  from lg have lgf: "filter cleanup_event lg = []" "filter is_write lg = []"
      "filter is_close lg = []"
    by auto
  let ?mk = "if existsSync w (trace c2) then []
             else [MkdirSync (path_join (st_projectDir st) ''history'')]"
  let ?made = "existsSync w (trace c2) \<or> mkdirSync w (trace c2) = None"
  let ?written = "?made \<and> writeFileSync w (trace c2 @ ?mk) = None"
  let ?evs = "?mk @ (if ?made
                then WriteFileSync (messages c2) # (if ?written then [Close] else [])
                else [])"
  have t3: "trace c3 = trace c2 @ ?evs @ lg"
    using t cleanup_events [OF sess, of st w] by auto
  have all: "filter cleanup_event ?evs = ?evs" by simp
  have ce: "filter cleanup_event (trace c3) = ?evs"
    unfolding t3 filter_append clean lgf all by simp
  have wr: "filter is_write (trace c3) =
      (if ?made then [WriteFileSync (messages c2)] else [])"
    unfolding t3 filter_append nowr lgf by simp
  have cl: "filter is_close (trace c3) = (if ?written then [Close] else [])"
    unfolding t3 filter_append nowr lgf by simp
  have "length (filter is_write (trace c3)) \<le> 1" by (simp add: wr)
  moreover have "length (filter is_close (trace c3)) \<le> 1" by (simp add: cl)
  moreover have "if ?made then filter is_write (trace c3) = [WriteFileSync (messages c2)]
      else filter is_write (trace c3) = []"
    by (simp add: wr)
  moreover have "if ?written then filter is_close (trace c3) = [Close]
      else filter is_close (trace c3) = []"
    by (simp add: cl)
  ultimately have "filter cleanup_event (trace c2) = [] \<and>
            length (filter is_write (trace c3)) \<le> 1 \<and>
            length (filter is_close (trace c3)) \<le> 1 \<and>
            (if ?made then filter is_write (trace c3) = [WriteFileSync (messages c2)]
             else filter is_write (trace c3) = []) \<and>
            (filter cleanup_event (trace c3) = ?evs \<and>
             (if ?written then filter is_close (trace c3) = [Close]
              else filter is_close (trace c3) = []))"
    using clean ce by blast
  then have "\<exists>c2 c3. chatLoop w c1 (pre @ line # rest) = Some c2 \<and>
            main st w (pre @ line # rest) = Some c3 \<and>
            filter cleanup_event (trace c2) = [] \<and>
            length (filter is_write (trace c3)) \<le> 1 \<and>
            length (filter is_close (trace c3)) \<le> 1 \<and>
            (if existsSync w (trace c2) \<or> mkdirSync w (trace c2) = None
             then filter is_write (trace c3) = [WriteFileSync (messages c2)]
             else filter is_write (trace c3) = []) \<and>
            (let mk = (if existsSync w (trace c2) then []
                       else [MkdirSync (path_join (st_projectDir st) ''history'')]);
                 made = (existsSync w (trace c2) \<or> mkdirSync w (trace c2) = None);
                 written = (made \<and> writeFileSync w (trace c2 @ mk) = None)
             in filter cleanup_event (trace c3) =
                  mk @ (if made
                        then WriteFileSync (messages c2) # (if written then [Close] else [])
                        else []) \<and>
                (if written then filter is_close (trace c3) = [Close]
                 else filter is_close (trace c3) = []))"
    unfolding Let_def using loop m by blast
  with stop processQuery_changes show ?thesis by blast
qed

theorem quit_ends_loop_cleanup_once_witness:
  "toLowerCase (trim ''  QuIt '') = ''quit'' \<and>
   chatLoop (scenario (says ''4'') files) answered [''  QuIt '', ''ignored''] = Some answered \<and>
   (\<exists>c3. main settings0 (scenario (says ''4'') files)
            [''What is 2+2?'', ''  QuIt '', ''ignored''] = Some c3 \<and>
         filter is_write (trace c3) = [WriteFileSync dialogue] \<and>
         filter is_close (trace c3) = [Close] \<and>
         filter cleanup_event (trace c3) = [WriteFileSync dialogue, Close])"
proof -
  let ?w = "scenario (says ''4'') files"
  have others: "\<forall>l \<in> set [''What is 2+2?'']. toLowerCase (trim l) \<noteq> ''quit''"
    by (simp add: question_line)
  have dir: "existsSync ?w (trace answered)"
    by (simp add: scenario_def)
  have written: "writeFileSync ?w (trace answered @ []) = None"
    by (simp add: scenario_def)
  from quit_ends_loop_cleanup_once
    [OF quit_line others demo_connect, of "says ''4''" files answered "[''ignored'']"]
  obtain c2 c3 where
    stop: "chatLoop ?w answered [''  QuIt '', ''ignored''] = Some answered"
    and loop: "chatLoop ?w started ([''What is 2+2?''] @ [''  QuIt '', ''ignored'']) = Some c2"
    and run: "main settings0 ?w ([''What is 2+2?''] @ [''  QuIt '', ''ignored'']) = Some c3"
    and writes: "if existsSync ?w (trace c2) \<or> mkdirSync ?w (trace c2) = None
       then filter is_write (trace c3) = [WriteFileSync (messages c2)]
       else filter is_write (trace c3) = []"
    and events: "let mk = (if existsSync ?w (trace c2) then []
                       else [MkdirSync (path_join (st_projectDir settings0) ''history'')]);
                 made = (existsSync ?w (trace c2) \<or> mkdirSync ?w (trace c2) = None);
                 written = (made \<and> writeFileSync ?w (trace c2 @ mk) = None)
             in filter cleanup_event (trace c3) =
                  mk @ (if made
                        then WriteFileSync (messages c2) # (if written then [Close] else [])
                        else []) \<and>
                (if written then filter is_close (trace c3) = [Close]
                 else filter is_close (trace c3) = [])"
    by blast
  from loop demo_loop have c2: "c2 = answered"
    by (simp del: chatLoop.simps)
  have m: "messages answered = dialogue"
    by (simp add: answered_def)
  from writes dir c2 m have w: "filter is_write (trace c3) = [WriteFileSync dialogue]"
    by simp
  from events dir written c2 m
  have e: "filter cleanup_event (trace c3) = [WriteFileSync dialogue, Close] \<and>
      filter is_close (trace c3) = [Close]"
    by (simp add: Let_def)
  from quit_line stop run w e show ?thesis
    by (simp del: chatLoop.simps)
qed

text \<open>
  C9. The transcript only grows at its end: after \<^verbatim>\<open>processQuery\<close>, whatever its
  outcome, and after any number of turns of the loop, the transcript from before is a
  prefix of the transcript; \<^verbatim>\<open>cleanup\<close> and \<^verbatim>\<open>connectToServer\<close> leave it as it is.
\<close>

theorem transcript_append_only:
  "prefix (messages c) (messages (snd (processQuery w c q))) \<and>
   messages (snd (cleanup st w c)) = messages c \<and>
   messages (snd (connectToServer w c)) = messages c \<and>
   (\<forall>c'. chatLoop w c ls = Some c' \<longrightarrow> prefix (messages c) (messages c'))"
proof -
  have "prefix (messages c) (messages (snd (processQuery w c q)))"
    using processQuery_frame [of c q w] append_prefixD by blast
  moreover have "\<forall>c'. chatLoop w c ls = Some c' \<longrightarrow> prefix (messages c) (messages c')"
    using chatLoop_frame by blast
  ultimately show ?thesis by (simp add: cleanup_messages connectToServer_messages)
qed

theorem transcript_append_only_witness:
  "chatLoop (scenario (says ''4'') files) started [''What is 2+2?'', ''  QuIt '', ''ignored''] =
     Some answered \<and>
   prefix (messages started) (messages answered) \<and>
   messages answered = dialogue \<and>
   prefix dialogue
      (messages (snd (processQuery (scenario (says ''4'') files) answered ''What is 2+2?''))) \<and>
   messages (snd (cleanup settings0 (scenario (says ''4'') files) answered)) = dialogue"
proof -
  let ?w = "scenario (says ''4'') files"
  have m: "messages answered = dialogue"
    by (simp add: answered_def)
  from transcript_append_only
    [of started ?w "''What is 2+2?''" settings0 "[''What is 2+2?'', ''  QuIt '', ''ignored'']"]
    demo_loop
  have "prefix (messages started) (messages answered)"
    by blast
  moreover from transcript_append_only [of answered ?w "''What is 2+2?''" settings0] m
  have "prefix dialogue (messages (snd (processQuery ?w answered ''What is 2+2?''))) \<and>
      messages (snd (cleanup settings0 ?w answered)) = dialogue"
    by simp
  ultimately show ?thesis using demo_loop m by blast
qed


section \<open>The claim about the settings\<close>

text \<open>
  C8, as the code has it. \<^verbatim>\<open>getSettings\<close> throws, and the program ends before \<^verbatim>\<open>main\<close>
  is called, whenever the API key is absent or empty, the configuration file cannot be
  read, its text does not parse, \<^verbatim>\<open>mcpServers\<close> is absent or has no entry, or the first
  entry of \<^verbatim>\<open>mcpServers\<close>, the only one that is read, lacks \<^verbatim>\<open>command\<close> or \<^verbatim>\<open>args\<close>. No
  settings value exists in any of these cases.
\<close>

theorem startup_fails_on_bad_configuration:
  assumes "p = path_join (module_projectDir w) ''server-config.json''"
    and "env_DEEPSEEK_API_KEY w = None \<or> env_DEEPSEEK_API_KEY w = Some [] \<or>
      (\<exists>e. readFileSync w p = Inl e) \<or>
      (\<exists>raw. readFileSync w p = Inr raw \<and> JSON_parse w raw = None) \<or>
      (\<exists>raw config. readFileSync w p = Inr raw \<and> JSON_parse w raw = Some config \<and>
         (get_property config ''mcpServers'' = Inr None \<or>
          (\<exists>m. get_property config ''mcpServers'' = Inr (Some m) \<and> Object_entries m = []))) \<or>
      (\<exists>raw config m name server others.
         readFileSync w p = Inr raw \<and> JSON_parse w raw = Some config \<and>
         get_property config ''mcpServers'' = Inr (Some m) \<and>
         Object_entries m = (name, server) # others \<and>
         (in_operator ''command'' server \<noteq> Inr True \<or> in_operator ''args'' server \<noteq> Inr True))"
  shows "\<exists>e. getSettings w = Inl e \<and> program w lines = Inl e"
proof -
  have prog: "\<And>e. getSettings w = Inl e \<Longrightarrow> program w lines = Inl e"
    by (simp add: program_def)
  have cfg: "(\<exists>e. readServerConfig w p = Inl e) \<Longrightarrow> \<exists>e. getSettings w = Inl e"
    by (auto simp: getSettings_def Let_def assms(1) split: option.splits)
  consider (nokey) "env_DEEPSEEK_API_KEY w = None \<or> env_DEEPSEEK_API_KEY w = Some []"
    | (nofile) e where "readFileSync w p = Inl e"
    | (noparse) raw where "readFileSync w p = Inr raw" "JSON_parse w raw = None"
    | (noserver) raw config where "readFileSync w p = Inr raw" "JSON_parse w raw = Some config"
        "get_property config ''mcpServers'' = Inr None \<or>
          (\<exists>m. get_property config ''mcpServers'' = Inr (Some m) \<and> Object_entries m = [])"
    | (nofield) raw config m name server others where
        "readFileSync w p = Inr raw" "JSON_parse w raw = Some config"
        "get_property config ''mcpServers'' = Inr (Some m)"
        "Object_entries m = (name, server) # others"
        "in_operator ''command'' server \<noteq> Inr True \<or> in_operator ''args'' server \<noteq> Inr True"
    using assms(2) by blast
  then have "\<exists>e. getSettings w = Inl e"
  proof cases
    case nokey
    then show ?thesis by (auto simp: getSettings_def Let_def)
  next
    case nofile
    then show ?thesis by (intro cfg) (simp add: readServerConfig_def)
  next
    case noparse
    then show ?thesis by (intro cfg) (simp add: readServerConfig_def)
  next
    case noserver
    then show ?thesis by (intro cfg) (auto simp: readServerConfig_def)
  next
    case nofield
    from checkServer_lacks [OF nofield(5), of name] obtain e where
      "checkServer name server = Inl e" ..
    with nofield(1-4) entries_truthy [OF nofield(4)] show ?thesis
      by (intro cfg) (simp add: readServerConfig_def)
  qed
  with prog show ?thesis by blast
qed

theorem startup_fails_on_bad_configuration_witness:
  "program (startup_world None (Inr ''{}'') (Some config_json)) [''quit''] =
     Inl (Error ''DeepSeek API key is required. Please set DEEPSEEK_API_KEY in your .env file.'') \<and>
   program (startup_world (Some ''sk-test'')
      (Inl (ErrnoException ''ENOENT'' ''no such file or directory'')) None) [''quit''] =
     Inl (Error ''MCP Config file not found: /app/server-config.json'') \<and>
   program (startup_world (Some ''sk-test'') (Inr ''{'') None) [''quit''] =
     Inl (Error ''Invalid MCP Config file: /app/server-config.json'') \<and>
   program (startup_world (Some ''sk-test'') (Inr ''{}'') (Some (JObj []))) [''quit''] =
     Inl no_server_error \<and>
   program (startup_world (Some ''sk-test'') (Inr ''{}'')
      (Some (JObj [(''mcpServers'', JObj [(''fs'', JObj [(''command'', JStr ''node'')])])])))
      [''quit''] =
     Inl (Error (''Server '' @ quoted ''fs'' @ '' missing required fields: args''))"
proof (intro conjI)
  let ?p = "''/app/server-config.json''"
  let ?w1 = "startup_world None (Inr ''{}'') (Some config_json)"
  have "\<exists>e. getSettings ?w1 = Inl e \<and> program ?w1 [''quit''] = Inl e"
    by (rule startup_fails_on_bad_configuration [of ?p]) (simp_all add: startup_defs)
  moreover have "getSettings ?w1 =
      Inl (Error ''DeepSeek API key is required. Please set DEEPSEEK_API_KEY in your .env file.'')"
    by (simp add: startup_defs)
  ultimately show "program ?w1 [''quit''] =
      Inl (Error ''DeepSeek API key is required. Please set DEEPSEEK_API_KEY in your .env file.'')"
    by auto
next
  let ?p = "''/app/server-config.json''"
  let ?w2 = "startup_world (Some ''sk-test'')
      (Inl (ErrnoException ''ENOENT'' ''no such file or directory'')) None"
  have "\<exists>e. getSettings ?w2 = Inl e \<and> program ?w2 [''quit''] = Inl e"
    by (rule startup_fails_on_bad_configuration [of ?p]) (simp_all add: startup_defs)
  moreover have "getSettings ?w2 =
      Inl (Error ''MCP Config file not found: /app/server-config.json'')"
    by (simp add: startup_defs)
  ultimately show "program ?w2 [''quit''] =
      Inl (Error ''MCP Config file not found: /app/server-config.json'')"
    by auto
next
  let ?p = "''/app/server-config.json''"
  let ?w3 = "startup_world (Some ''sk-test'') (Inr ''{'') None"
  have "\<exists>e. getSettings ?w3 = Inl e \<and> program ?w3 [''quit''] = Inl e"
    by (rule startup_fails_on_bad_configuration [of ?p]) (simp_all add: startup_defs)
  moreover have "getSettings ?w3 =
      Inl (Error ''Invalid MCP Config file: /app/server-config.json'')"
    by (simp add: startup_defs)
  ultimately show "program ?w3 [''quit''] =
      Inl (Error ''Invalid MCP Config file: /app/server-config.json'')"
    by auto
next
  let ?p = "''/app/server-config.json''"
  let ?w4 = "startup_world (Some ''sk-test'') (Inr ''{}'') (Some (JObj []))"
  have "\<exists>e. getSettings ?w4 = Inl e \<and> program ?w4 [''quit''] = Inl e"
    by (rule startup_fails_on_bad_configuration [of ?p]) (simp_all add: startup_defs)
  moreover have "getSettings ?w4 = Inl no_server_error"
    by (simp add: startup_defs)
  ultimately show "program ?w4 [''quit''] = Inl no_server_error"
    by auto
next
  let ?p = "''/app/server-config.json''"
  let ?w5 = "startup_world (Some ''sk-test'') (Inr ''{}'')
      (Some (JObj [(''mcpServers'', JObj [(''fs'', JObj [(''command'', JStr ''node'')])])]))"
  have "\<exists>e. getSettings ?w5 = Inl e \<and> program ?w5 [''quit''] = Inl e"
    by (rule startup_fails_on_bad_configuration [of ?p]) (simp_all add: startup_defs)
  moreover have "getSettings ?w5 =
      Inl (Error (''Server '' @ quoted ''fs'' @ '' missing required fields: args''))"
    by (simp add: startup_defs)
  ultimately show "program ?w5 [''quit''] =
      Inl (Error (''Server '' @ quoted ''fs'' @ '' missing required fields: args''))"
    by auto
qed

text \<open>
  C8 as stated fails for an entry that is not the first: with two servers of which the
  second has no \<^verbatim>\<open>args\<close>, the settings are built from the first and \<^verbatim>\<open>main\<close> is called.
\<close>

theorem second_server_entry_not_checked:
  "getSettings (startup_world (Some ''sk-test'') (Inr ''{}'') (Some two_servers)) = Inr settings0 \<and>
   in_operator ''args'' (JObj [(''command'', JStr ''python'')]) = Inr False \<and>
   program (startup_world (Some ''sk-test'') (Inr ''{}'') (Some two_servers)) [''quit''] =
     Inr (main settings0 (startup_world (Some ''sk-test'') (Inr ''{}'') (Some two_servers))
            [''quit''])"
  by (simp add: startup_defs two_servers_def settings0_def)

end
